theory Spec2Isabelle
  imports Complex_Main
begin

section \<open>Strings, integers and paths\<close>

text \<open>
  Python's \<open>str(int)\<close> as used by the f-string of \<open>make_sig\<close>: decimal digits, with a
  leading minus sign for a negative number.
\<close>

definition digit_char :: "nat \<Rightarrow> char" where
  "digit_char d = char_of (48 + d)"

function str_nat :: "nat \<Rightarrow> string" where
  "str_nat n = (if n < 10 then [digit_char n] else str_nat (n div 10) @ [digit_char (n mod 10)])"
  by pat_completeness auto
termination
  by (relation "measure (\<lambda>n. n)") auto

definition str_int :: "int \<Rightarrow> string" where
  "str_int i = (if i < 0 then CHR ''-'' # str_nat (nat (- i)) else str_nat (nat i))"

text \<open>
  \<open>int(x)\<close> on a float truncates towards zero. A finite float is a rational number, so
  modification times are values of type \<open>rat\<close>.
\<close>

definition py_int :: "rat \<Rightarrow> int" where
  "py_int x = (if x < 0 then \<lceil>x\<rceil> else \<lfloor>x\<rfloor>)"

text \<open>\<open>sha or ''\<close>: \<open>None\<close> and the empty string both give the empty string.\<close>

definition or_empty :: "string option \<Rightarrow> string" where
  "or_empty s = (case s of None \<Rightarrow> [] | Some t \<Rightarrow> t)"

text \<open>utils.py, \<open>make_sig\<close>: \<open>f"{size}:{int(mtime)}:{sha or ''}"\<close>.\<close>

definition make_sig :: "int \<Rightarrow> rat \<Rightarrow> string option \<Rightarrow> string" where
  "make_sig sz mt sha = str_int sz @ '':'' @ str_int (py_int mt) @ '':'' @ or_empty sha"

text \<open>
  A path is the list of its components below the root. \<open>path_name\<close> is \<open>Path.name\<close>,
  \<open>path_suffix\<close> is \<open>Path.suffix\<close> (the part of the name from its last dot, when that dot
  is neither the first nor the last character), \<open>with_suffix\<close> is \<open>Path.with_suffix\<close>,
  which raises \<open>ValueError\<close> on an empty name, \<open>relative_to\<close> is \<open>Path.relative_to\<close>,
  which raises \<open>ValueError\<close> when the base is not a prefix, and \<open>path_str\<close> is \<open>str\<close> of a
  relative path.
\<close>

type_synonym path = "string list"

definition path_name :: "path \<Rightarrow> string" where
  "path_name p = (if p = [] then [] else last p)"

definition name_suffix :: "string \<Rightarrow> string" where
  "name_suffix nm =
     (let ext = rev (takeWhile (\<lambda>c. c \<noteq> CHR ''.'') (rev nm)) in
      if CHR ''.'' \<in> set nm \<and> ext \<noteq> [] \<and> Suc (length ext) < length nm
      then CHR ''.'' # ext else [])"

definition path_suffix :: "path \<Rightarrow> string" where
  "path_suffix p = name_suffix (path_name p)"

definition with_suffix :: "path \<Rightarrow> string \<Rightarrow> path option" where
  "with_suffix p suffix =
     (let nm = path_name p in
      if nm = [] then None
      else Some (butlast p @ [take (length nm - length (name_suffix nm)) nm @ suffix]))"

fun relative_to :: "path \<Rightarrow> path \<Rightarrow> path option" where
  "relative_to p [] = Some p"
| "relative_to [] (b # bs) = None"
| "relative_to (c # cs) (b # bs) = (if c = b then relative_to cs bs else None)"

fun join_sep :: "string list \<Rightarrow> string" where
  "join_sep [] = []"
| "join_sep [c] = c"
| "join_sep (c # d # cs) = c @ ''/'' @ join_sep (d # cs)"

definition path_str :: "path \<Rightarrow> string" where
  "path_str r = (if r = [] then ''.'' else join_sep r)"

text \<open>\<open>Path(str(path) + ".enc")\<close>: the sibling whose name has \<open>.enc\<close> appended.\<close>

definition enc_path :: "path \<Rightarrow> path" where
  "enc_path p = (if p = [] then [''.enc''] else butlast p @ [last p @ ''.enc''])"

definition lower_char :: "char \<Rightarrow> char" where
  "lower_char c =
     (if (65::nat) \<le> of_char c \<and> (of_char c :: nat) \<le> 90 then char_of ((of_char c :: nat) + 32) else c)"

definition lower :: "string \<Rightarrow> string" where
  "lower s = map lower_char s"

fun startswith :: "string \<Rightarrow> string \<Rightarrow> bool" where
  "startswith s [] = True"
| "startswith [] (c # cs) = False"
| "startswith (d # ds) (c # cs) = (d = c \<and> startswith ds cs)"

definition IGNORED_SUFFIXES :: "string list" where
  "IGNORED_SUFFIXES = [''.tmp'', ''.crdownload'', ''.part'', ''.partial'']"

text \<open>
  The guard shared by \<open>UploadPool.enqueue\<close> and \<open>initial_scan_and_enqueue\<close>:
  \<open>path.suffix.lower() in IGNORED_SUFFIXES or path.name.startswith("~$")\<close>.
\<close>

definition ignored :: "path \<Rightarrow> bool" where
  "ignored p = (lower (path_suffix p) \<in> set IGNORED_SUFFIXES \<or> startswith (path_name p) ''~$'')"

text \<open>
  A text, as Python's \<open>str\<close>, is a list of code points. \<open>utf8_decode\<close> is the strict
  UTF-8 decoder of \<open>bytes.decode("utf-8")\<close>: \<open>None\<close> stands for \<open>UnicodeDecodeError\<close>
  (a stray or missing continuation byte, an overlong form, a surrogate, a code point
  above \<open>10FFFF\<close>).
\<close>

type_synonym ustr = "nat list"

definition is_cont :: "nat \<Rightarrow> bool" where
  "is_cont b = (128 \<le> b \<and> b \<le> 191)"

fun decode_cps :: "nat list \<Rightarrow> ustr option" where
  "decode_cps [] = Some []"
| "decode_cps [b] = (if b < 128 then Some [b] else None)"
| "decode_cps [b, c1] =
     (if b < 128 then map_option ((#) b) (decode_cps [c1])
      else if 194 \<le> b \<and> b \<le> 223 \<and> is_cont c1 then Some [(b - 192) * 64 + (c1 - 128)]
      else None)"
| "decode_cps [b, c1, c2] =
     (if b < 128 then map_option ((#) b) (decode_cps [c1, c2])
      else if 194 \<le> b \<and> b \<le> 223 \<and> is_cont c1
        then map_option ((#) ((b - 192) * 64 + (c1 - 128))) (decode_cps [c2])
      else if 224 \<le> b \<and> b \<le> 239
              \<and> (if b = 224 then 160 else 128) \<le> c1 \<and> c1 \<le> (if b = 237 then 159 else 191)
              \<and> is_cont c2
        then Some [(b - 224) * 4096 + (c1 - 128) * 64 + (c2 - 128)]
      else None)"
| "decode_cps (b # c1 # c2 # c3 # r) =
     (if b < 128 then map_option ((#) b) (decode_cps (c1 # c2 # c3 # r))
      else if 194 \<le> b \<and> b \<le> 223 \<and> is_cont c1
        then map_option ((#) ((b - 192) * 64 + (c1 - 128))) (decode_cps (c2 # c3 # r))
      else if 224 \<le> b \<and> b \<le> 239
              \<and> (if b = 224 then 160 else 128) \<le> c1 \<and> c1 \<le> (if b = 237 then 159 else 191)
              \<and> is_cont c2
        then map_option ((#) ((b - 224) * 4096 + (c1 - 128) * 64 + (c2 - 128)))
               (decode_cps (c3 # r))
      else if 240 \<le> b \<and> b \<le> 244
              \<and> (if b = 240 then 144 else 128) \<le> c1 \<and> c1 \<le> (if b = 244 then 143 else 191)
              \<and> is_cont c2 \<and> is_cont c3
        then map_option
               ((#) ((b - 240) * 262144 + (c1 - 128) * 4096 + (c2 - 128) * 64 + (c3 - 128)))
               (decode_cps r)
      else None)"

definition utf8_decode :: "string \<Rightarrow> ustr option" where
  "utf8_decode bs = decode_cps (map of_char bs)"

text \<open>
  Reading in text mode translates \<open>\r\n\<close> and a lone \<open>\r\<close> to \<open>\n\<close>; the flag says that
  the character before was a \<open>\r\<close>.
\<close>

fun universal_newlines :: "bool \<Rightarrow> ustr \<Rightarrow> ustr" where
  "universal_newlines after_cr [] = []"
| "universal_newlines after_cr (c # cs) =
     (if c = 13 then 10 # universal_newlines True cs
      else if c = 10 \<and> after_cr then universal_newlines False cs
      else c # universal_newlines False cs)"

text \<open>
  \<open>str.strip()\<close>: the characters removed at both ends are those of \<open>str.isspace()\<close>, the
  white space of ASCII and of Unicode.
\<close>

definition is_space :: "nat \<Rightarrow> bool" where
  "is_space c =
     ((9 \<le> c \<and> c \<le> 13) \<or> (28 \<le> c \<and> c \<le> 32) \<or> c = 133 \<or> c = 160 \<or> c = 5760
      \<or> (8192 \<le> c \<and> c \<le> 8202) \<or> c = 8232 \<or> c = 8233 \<or> c = 8239 \<or> c = 8287
      \<or> c = 12288)"

definition strip :: "ustr \<Rightarrow> ustr" where
  "strip s = rev (dropWhile is_space (rev (dropWhile is_space s)))"

section \<open>Files, records and configuration\<close>

type_synonym bytes = string

record file_obj =
  content :: bytes
  st_mtime :: rat

definition st_size :: "file_obj \<Rightarrow> nat" where
  "st_size f = length (content f)"

type_synonym filesystem = "path \<rightharpoonup> file_obj"

text \<open>\<open>Path.replace\<close> (\<open>os.replace\<close>): \<open>None\<close> stands for \<open>FileNotFoundError\<close>.\<close>

definition replace_file :: "filesystem \<Rightarrow> path \<Rightarrow> path \<Rightarrow> filesystem option" where
  "replace_file fsys src dst =
     (case fsys src of None \<Rightarrow> None | Some f \<Rightarrow> Some ((fsys(src := None))(dst \<mapsto> f)))"

text \<open>core/models.py, \<open>FileMeta\<close> and \<open>MetadataDB\<close>.\<close>

record FileMeta =
  size_fm :: int
  mtime :: rat
  sha256 :: "string option"
  message_id :: "int option"
  file_id :: "string option"
  user_message_id :: "int option"
  via :: "string option"
  status :: string
  sig :: "string option"
  uploaded_at :: "string option"

definition new_FileMeta :: "int \<Rightarrow> rat \<Rightarrow> FileMeta" where
  "new_FileMeta sz mt =
     \<lparr>size_fm = sz, mtime = mt, sha256 = None, message_id = None, file_id = None,
      user_message_id = None, via = None, status = ''pending'', sig = None, uploaded_at = None\<rparr>"

record MetadataDB =
  files :: "string \<rightharpoonup> FileMeta"
  last_backup_iso :: "string option"

definition new_MetadataDB :: MetadataDB where
  "new_MetadataDB = \<lparr>files = Map.empty, last_backup_iso = None\<rparr>"

text \<open>
  The configuration dictionary, restricted to the keys the synchronisation engine reads.
  A field is \<open>None\<close> when the key is absent, so that \<open>cfg.get(key, default)\<close> is
  \<open>cfg_get default\<close>.
\<close>

record config =
  enable_2gb_mode :: "bool option"
  force_user_api :: "bool option"
  encryption_enabled :: "bool option"
  encryption_passphrase :: "string option"
  use_sha256 :: "bool option"
  rate_limit_seconds :: "rat option"

definition cfg_get :: "'a \<Rightarrow> 'a option \<Rightarrow> 'a" where
  "cfg_get d v = (case v of None \<Rightarrow> d | Some x \<Rightarrow> x)"

text \<open>config.py, \<open>DEFAULT_CONFIG\<close>.\<close>

definition DEFAULT_CONFIG :: config where
  "DEFAULT_CONFIG =
     \<lparr>enable_2gb_mode = Some False, force_user_api = Some True, encryption_enabled = Some False,
      encryption_passphrase = Some [], use_sha256 = Some False, rate_limit_seconds = Some (1 / 2)\<rparr>"

section \<open>The environment and the state\<close>

datatype exn =
    FileNotFoundError | IsADirectoryError | UnicodeDecodeError | ValueError | HTTPError
  | ConnectionError

text \<open>
  What the primary endpoint answers to a \<open>sendDocument\<close> request: a 429 with its
  \<open>retry_after\<close> and the answer to the retried request, a request that raises, an error
  status (\<open>raise_for_status\<close> raises), a body with \<open>ok\<close> false, or a result with its
  \<open>message_id\<close> and \<open>document.file_id\<close>. An endpoint that answers 429 for ever is outside
  this type.
\<close>

datatype bot_reply =
    TooManyRequests nat bot_reply
  | PostRaises
  | ErrorStatus
  | NotOk
  | Sent "int option" "string option"

datatype getfile_reply = GetFileRaises | GetFileNone | GetFilePath string

datatype fetch_reply = FetchRaises | FetchBadStatus | FetchOk bytes

text \<open>
  What \<open>json.loads\<close> followed by the construction of the records does on a text: the
  text is not JSON (\<open>JSONDecodeError\<close>), it is JSON of another shape (another exception),
  or it decodes to a store.
\<close>

datatype decode_result = Malformed | WrongShape | Decoded MetadataDB

datatype event =
    BotSend path string bytes
  | UserSend path string bytes
  | BotGetFile string
  | BotFetch string path
  | UserDownload int path
  | GuiCurrentUpload string nat
  | GuiRefreshTable
  | GuiNotify string

text \<open>
  Everything the engine takes from outside: the working directory, the configuration,
  whether the cryptography library was imported, the library functions (hashing, key
  derivation, encryption, JSON, date formatting) and the answers of the two remote
  endpoints.
\<close>

record env =
  work_dir :: path
  cfg :: config
  fernet_available :: bool
  sha256_digest :: "bytes \<Rightarrow> bytes"
  sha256_hexdigest :: "bytes \<Rightarrow> string"
  derive_fernet_key :: "string \<Rightarrow> bytes \<Rightarrow> bytes"
  fernet_encrypt :: "bytes \<Rightarrow> bytes \<Rightarrow> bytes"
  json_dumps :: "MetadataDB \<Rightarrow> string"
  json_decode :: "ustr \<Rightarrow> decode_result"
  isoformat :: "rat \<Rightarrow> string"
  bot_send_reply :: bot_reply
  user_send_reply :: "int option"
  bot_getfile_reply :: getfile_reply
  bot_fetch_reply :: fetch_reply
  user_download_reply :: "bytes option"

definition CLOUD_DIR :: "env \<Rightarrow> path" where
  "CLOUD_DIR e = work_dir e @ [''MyCloudData'']"

definition METADATA_FILE :: "env \<Rightarrow> path" where
  "METADATA_FILE e = work_dir e @ [''metadata.json'']"

text \<open>\<open>DualTelegramClient.BOT_LIMIT = 49 * 1024 * 1024\<close>.\<close>

definition BOT_LIMIT :: nat where
  "BOT_LIMIT = 49 * 1024 * 1024"

text \<open>
  The mutable state: the file system, the store in memory, the work queue, the
  debounce table, the clock (the value \<open>time.time()\<close> returns), the rate gate's last call,
  the secondary client's three fields, whether a GUI is attached, and the trace of
  requests sent to the endpoints and of notifications to the GUI.
\<close>

record state =
  fs :: filesystem
  meta :: MetadataDB
  queue :: "path list"
  last_event :: "string \<rightharpoonup> rat"
  clock :: rat
  last_call :: rat
  user_client :: bool
  user_loop :: bool
  user_ready :: bool
  gui :: bool
  trace :: "event list"

definition sleep :: "rat \<Rightarrow> state \<Rightarrow> state" where
  "sleep d st = st\<lparr>clock := clock st + d\<rparr>"

definition emit :: "event \<Rightarrow> state \<Rightarrow> state" where
  "emit ev st = st\<lparr>trace := trace st @ [ev]\<rparr>"

definition gui_emit :: "event \<Rightarrow> state \<Rightarrow> state" where
  "gui_emit ev st = (if gui st then emit ev st else st)"

definition truthy_int :: "int option \<Rightarrow> bool" where
  "truthy_int v = (case v of None \<Rightarrow> False | Some i \<Rightarrow> i \<noteq> 0)"

definition truthy_str :: "string option \<Rightarrow> bool" where
  "truthy_str v = (case v of None \<Rightarrow> False | Some s \<Rightarrow> s \<noteq> [])"

section \<open>The persistent store\<close>

text \<open>
  core/models.py, \<open>MetadataDB.save\<close>: the store is serialised, written to the sibling
  \<open>.tmp\<close> file and moved over the target; an exception is logged and absorbed.
\<close>

definition save :: "env \<Rightarrow> state \<Rightarrow> path \<Rightarrow> state" where
  "save e st p =
     (case with_suffix p ''.tmp'' of
        None \<Rightarrow> st
      | Some tmp \<Rightarrow>
          let fs1 = (fs st)(tmp \<mapsto> \<lparr>content = json_dumps e (meta st), st_mtime = clock st\<rparr>) in
          (case replace_file fs1 tmp p of
             None \<Rightarrow> st\<lparr>fs := fs1\<rparr>
           | Some fs2 \<Rightarrow> st\<lparr>fs := fs2\<rparr>))"

text \<open>
  \<open>Path.read_text(encoding="utf-8")\<close>: a path with an empty name is a directory, a
  missing file cannot be read, and bytes that are not UTF-8 cannot be decoded; all
  three raise.
\<close>

definition read_text :: "filesystem \<Rightarrow> path \<Rightarrow> exn + ustr" where
  "read_text fsys p =
     (if path_name p = [] then Inl IsADirectoryError
      else
        (case fsys p of
           None \<Rightarrow> Inl FileNotFoundError
         | Some f \<Rightarrow>
             (case utf8_decode (content f) of
                None \<Rightarrow> Inl UnicodeDecodeError
              | Some cps \<Rightarrow> Inr (universal_newlines False cps))))"

text \<open>
  core/models.py, \<open>MetadataDB.load\<close>. The result is the store and the file system after
  the call, or the exception that leaves the function: the backup path is computed in
  the handler of \<open>JSONDecodeError\<close>, outside every \<open>try\<close>. An exception of \<open>read_text\<close>
  and a text that is JSON of another shape reach the handler of \<open>Exception\<close>, which
  returns an empty store and touches no file.
\<close>

definition load :: "env \<Rightarrow> filesystem \<Rightarrow> path \<Rightarrow> exn + (MetadataDB \<times> filesystem)" where
  "load e fsys p =
     (if fsys p = None then Inr (new_MetadataDB, fsys)
      else
        (case read_text fsys p of
           Inl x \<Rightarrow> Inr (new_MetadataDB, fsys)
         | Inr raw \<Rightarrow>
             let text = strip raw in
             if text = [] then Inr (new_MetadataDB, fsys)
             else
               (case json_decode e text of
                  Decoded db \<Rightarrow> Inr (db, fsys)
                | Malformed \<Rightarrow>
                    (case with_suffix p ''.corrupt.json'' of
                       None \<Rightarrow> Inl ValueError
                     | Some backup \<Rightarrow>
                         (case replace_file fsys p backup of
                            Some fs' \<Rightarrow> Inr (new_MetadataDB, fs')
                          | None \<Rightarrow> Inr (new_MetadataDB, fsys)))
                | WrongShape \<Rightarrow> Inr (new_MetadataDB, fsys))))"

section \<open>The transfer router\<close>

text \<open>telegram/dual_client.py, \<open>_guard\<close>: the rate gate of the primary endpoint.\<close>

definition guard :: "env \<Rightarrow> state \<Rightarrow> state" where
  "guard e st =
     (let rate_limit = cfg_get (1 / 2) (rate_limit_seconds (cfg e));
          elapsed = clock st - last_call st;
          st1 = (if elapsed < rate_limit then sleep (rate_limit - elapsed) st else st)
      in st1\<lparr>last_call := clock st1\<rparr>)"

text \<open>
  \<open>bot_send_document\<close>: the gate, the \<open>stat\<close> of the file, the request, and the handling
  of the answer. On 429 the call sleeps \<open>retry_after + 1\<close> seconds and calls itself.
\<close>

fun bot_send_document ::
  "env \<Rightarrow> bot_reply \<Rightarrow> state \<Rightarrow> path \<Rightarrow> string
     \<Rightarrow> (exn + (int option \<times> string option)) \<times> state" where
  "bot_send_document e r st file_path caption =
     (let st1 = guard e st in
      case fs st1 file_path of
        None \<Rightarrow> (Inl FileNotFoundError, st1)
      | Some f \<Rightarrow>
          let st2 = emit (BotSend file_path caption (content f)) st1 in
          (case r of
             PostRaises \<Rightarrow> (Inl ConnectionError, st2)
           | TooManyRequests retry_after r' \<Rightarrow>
               bot_send_document e r' (sleep (of_nat retry_after + 1) st2) file_path caption
           | ErrorStatus \<Rightarrow> (Inl HTTPError, st2)
           | NotOk \<Rightarrow> (Inr (None, None), st2)
           | Sent mid fid \<Rightarrow> (Inr (mid, fid), st2)))"

text \<open>
  \<open>user_send_document\<close>: without a ready client nothing is sent; an exception of the
  session (a missing file included) is caught and gives \<open>(None, None)\<close>.
\<close>

definition user_send_document ::
  "env \<Rightarrow> state \<Rightarrow> path \<Rightarrow> string \<Rightarrow> (int option \<times> string option) \<times> state" where
  "user_send_document e st file_path caption =
     (if \<not> (user_loop st \<and> user_ready st \<and> user_client st) then ((None, None), st)
      else
        (case fs st file_path of
           None \<Rightarrow> ((None, None), st)
         | Some f \<Rightarrow>
             let st1 = emit (UserSend file_path caption (content f)) st in
             (case user_send_reply e of
                None \<Rightarrow> ((None, None), st1)
              | Some mid \<Rightarrow> ((Some mid, None), st1))))"

text \<open>
  \<open>send_document\<close>. The size is read only where the source reads it: in the secondary
  branch after \<open>force_user\<close> (the \<open>or\<close> is short-circuit), and on the primary path.
\<close>

definition bot_path ::
  "env \<Rightarrow> state \<Rightarrow> path \<Rightarrow> string
     \<Rightarrow> (exn + (string \<times> int option \<times> string option)) \<times> state" where
  "bot_path e st p caption =
     (case fs st p of
        None \<Rightarrow> (Inl FileNotFoundError, st)
      | Some f \<Rightarrow>
          if st_size f > BOT_LIMIT then (Inr (''bot'', None, None), st)
          else
            (case bot_send_document e (bot_send_reply e) st p caption of
               (Inl x, st1) \<Rightarrow> (Inl x, st1)
             | (Inr (mid, fid), st1) \<Rightarrow> (Inr (''bot'', mid, fid), st1)))"

definition user_path ::
  "env \<Rightarrow> state \<Rightarrow> path \<Rightarrow> string
     \<Rightarrow> (exn + (string \<times> int option \<times> string option)) \<times> state" where
  "user_path e st p caption =
     (case user_send_document e st p caption of
        ((mid, _), st1) \<Rightarrow> (Inr (''user'', mid, None), st1))"

definition send_document ::
  "env \<Rightarrow> state \<Rightarrow> path \<Rightarrow> string \<Rightarrow> bool
     \<Rightarrow> (exn + (string \<times> int option \<times> string option)) \<times> state" where
  "send_document e st p caption prefer_user =
     (let enable_2gb = cfg_get False (enable_2gb_mode (cfg e)) in
      if enable_2gb \<and> user_client st \<and> user_ready st then
        (let force_user = cfg_get True (force_user_api (cfg e)) in
         if force_user then user_path e st p caption
         else
           (case fs st p of
              None \<Rightarrow> (Inl FileNotFoundError, st)
            | Some f \<Rightarrow>
                if st_size f > BOT_LIMIT \<or> prefer_user then user_path e st p caption
                else bot_path e st p caption))
      else bot_path e st p caption)"

text \<open>\<open>bot_get_file_path\<close> and \<open>bot_download_file\<close>.\<close>

definition bot_download_file :: "env \<Rightarrow> state \<Rightarrow> string \<Rightarrow> path \<Rightarrow> (exn + bool) \<times> state" where
  "bot_download_file e st fid dest =
     (let st1 = emit (BotGetFile fid) (guard e st) in
      case bot_getfile_reply e of
        GetFileRaises \<Rightarrow> (Inl ConnectionError, st1)
      | GetFileNone \<Rightarrow> (Inr False, st1)
      | GetFilePath fp \<Rightarrow>
          if fp = [] then (Inr False, st1)
          else
            (let st2 = emit (BotFetch fp dest) (guard e st1) in
             case bot_fetch_reply e of
               FetchRaises \<Rightarrow> (Inl ConnectionError, st2)
             | FetchBadStatus \<Rightarrow> (Inr False, st2)
             | FetchOk data \<Rightarrow>
                 (Inr True, st2\<lparr>fs := (fs st2)(dest \<mapsto> \<lparr>content = data, st_mtime = clock st2\<rparr>)\<rparr>)))"

text \<open>\<open>user_download_by_message_id\<close>: every exception is caught and gives \<open>False\<close>.\<close>

definition user_download_by_message_id :: "env \<Rightarrow> state \<Rightarrow> int \<Rightarrow> path \<Rightarrow> bool \<times> state" where
  "user_download_by_message_id e st mid dest =
     (if \<not> (user_loop st \<and> user_ready st \<and> user_client st) then (False, st)
      else
        (let st1 = emit (UserDownload mid dest) st in
         case user_download_reply e of
           None \<Rightarrow> (False, st1)
         | Some data \<Rightarrow>
             (True, st1\<lparr>fs := (fs st1)(dest \<mapsto> \<lparr>content = data, st_mtime = clock st1\<rparr>)\<rparr>)))"

text \<open>
  \<open>download\<close>: the primary endpoint when the record was not sent through the secondary
  one and has a \<open>file_id\<close>; then the secondary endpoint by \<open>user_message_id\<close>; then by
  \<open>message_id\<close> when a secondary client exists; otherwise failure.
\<close>

definition download_user :: "env \<Rightarrow> state \<Rightarrow> FileMeta \<Rightarrow> path \<Rightarrow> (exn + bool) \<times> state" where
  "download_user e st fm dest =
     (if truthy_int (user_message_id fm) then
        (case user_download_by_message_id e st (the (user_message_id fm)) dest of
           (ok, st1) \<Rightarrow> (Inr ok, st1))
      else if truthy_int (message_id fm) \<and> user_client st then
        (case user_download_by_message_id e st (the (message_id fm)) dest of
           (ok, st1) \<Rightarrow> (Inr ok, st1))
      else (Inr False, st))"

definition download :: "env \<Rightarrow> state \<Rightarrow> FileMeta \<Rightarrow> path \<Rightarrow> (exn + bool) \<times> state" where
  "download e st fm dest =
     (if via fm \<noteq> Some ''user'' \<and> truthy_str (file_id fm) then
        (case bot_download_file e st (the (file_id fm)) dest of
           (Inl x, st1) \<Rightarrow> (Inl x, st1)
         | (Inr ok, st1) \<Rightarrow> if ok then (Inr True, st1) else download_user e st1 fm dest)
      else download_user e st fm dest)"

section \<open>The upload pool\<close>

text \<open>
  The functions of \<open>UploadPool\<close> act on the state one call at a time: the file system
  and the clock change only through the calls. Log lines, the pause flag and the
  progress callbacks fired during a transfer are left out; a file that exists can be
  opened.
\<close>

text \<open>
  utils.py, \<open>wait_for_file_readable\<close> with its default arguments: at most 240 polls, half
  a second apart (the timeout of 120 seconds), until the size has been the same at
  three consecutive polls after the first. The result is the answer and the number of
  sleeps.
\<close>

fun wait_loop :: "filesystem \<Rightarrow> path \<Rightarrow> nat \<Rightarrow> nat option \<Rightarrow> nat \<Rightarrow> nat \<Rightarrow> bool \<times> nat" where
  "wait_loop fsys p 0 last_size stable_n k = (False, k)"
| "wait_loop fsys p (Suc polls) last_size stable_n k =
     (case fsys p of
        None \<Rightarrow> wait_loop fsys p polls last_size stable_n (Suc k)
      | Some f \<Rightarrow>
          let stable' = (if last_size = Some (st_size f) then Suc stable_n else 0) in
          if stable' \<ge> 3 then (True, k)
          else wait_loop fsys p polls (Some (st_size f)) stable' (Suc k))"

definition wait_for_file_readable :: "filesystem \<Rightarrow> path \<Rightarrow> bool \<times> nat" where
  "wait_for_file_readable fsys p = wait_loop fsys p 240 None 0 0"

text \<open>\<open>sha256_of(path) if cfg.get("use_sha256") else None\<close>.\<close>

definition sha_of :: "env \<Rightarrow> file_obj \<Rightarrow> string option" where
  "sha_of e f =
     (if cfg_get False (use_sha256 (cfg e)) then Some (sha256_hexdigest e (content f)) else None)"

definition sig_of :: "env \<Rightarrow> file_obj \<Rightarrow> string" where
  "sig_of e f = make_sig (int (st_size f)) (st_mtime f) (sha_of e f)"

text \<open>
  The test \<open>fm and fm.status == "uploaded" and fm.sig == sig_now\<close>, written out in
  \<open>_unchanged\<close> and again in \<open>_process\<close>.
\<close>

definition already_synced :: "FileMeta option \<Rightarrow> string \<Rightarrow> bool" where
  "already_synced fm sig_now =
     (case fm of None \<Rightarrow> False | Some m \<Rightarrow> status m = ''uploaded'' \<and> sig m = Some sig_now)"

text \<open>workers/upload_pool.py, \<open>UploadPool._unchanged\<close>.\<close>

definition unchanged :: "env \<Rightarrow> state \<Rightarrow> path \<Rightarrow> bool" where
  "unchanged e st p =
     (case relative_to p (CLOUD_DIR e) of
        None \<Rightarrow> True
      | Some r \<Rightarrow>
          (case fs st p of
             None \<Rightarrow> False
           | Some f \<Rightarrow> already_synced (files (meta st) (path_str r)) (sig_of e f)))"

text \<open>\<open>UploadPool.enqueue\<close>.\<close>

definition enqueue :: "env \<Rightarrow> state \<Rightarrow> path \<Rightarrow> state" where
  "enqueue e st p =
     (if fs st p = None then st
      else if ignored p then st
      else
        (case relative_to p (CLOUD_DIR e) of
           None \<Rightarrow> st
         | Some r \<Rightarrow>
             let rel = path_str r; now = clock st in
             if now - (case last_event st rel of None \<Rightarrow> 0 | Some t \<Rightarrow> t) < 1 then st
             else
               (let st1 = st\<lparr>last_event := (last_event st)(rel \<mapsto> now)\<rparr> in
                if unchanged e st1 p then st1
                else if p \<in> set (queue st1) then st1
                else st1\<lparr>queue := queue st1 @ [p]\<rparr>)))"

text \<open>
  \<open>UploadPool._process\<close>, in the order of the source. \<open>process\<close> is the function up to
  the test for a file already synced; \<open>transfer_and_record\<close> is the rest: the optional
  encryption into the sibling temporary file (\<open>encrypt_step\<close>), the transfer, the removal
  of the temporary file (\<open>clean_temp\<close>), and the update of the record on success
  (\<open>record_success\<close>) and on failure (\<open>record_failure\<close>). The result is the exception that
  leaves the function, if any, and the state at that point.
\<close>

definition encrypt_step ::
  "env \<Rightarrow> state \<Rightarrow> path \<Rightarrow> string \<Rightarrow> file_obj \<Rightarrow> (path \<times> string \<times> path option \<times> nat) \<times> state" where
  "encrypt_step e st p rel f =
     (if cfg_get False (encryption_enabled (cfg e)) \<and> fernet_available e then
        (let pp = or_empty (encryption_passphrase (cfg e)) in
         if pp \<noteq> [] then
           (let salt = take 16 (sha256_digest e rel);
                key = derive_fernet_key e pp salt;
                enc = fernet_encrypt e key (content f);
                temp_file = enc_path p;
                st1 = st\<lparr>fs := (fs st)(temp_file \<mapsto> \<lparr>content = enc, st_mtime = clock st\<rparr>)\<rparr>
            in ((temp_file, rel @ '' (enc)'', Some temp_file, length enc), st1))
         else ((p, rel, None, st_size f), st))
      else ((p, rel, None, st_size f), st))"

definition clean_temp :: "state \<Rightarrow> path option \<Rightarrow> state" where
  "clean_temp st temp_file =
     (case temp_file of
        None \<Rightarrow> st
      | Some t \<Rightarrow> if fs st t \<noteq> None then st\<lparr>fs := (fs st)(t := None)\<rparr> else st)"

definition put_record :: "state \<Rightarrow> string \<Rightarrow> FileMeta \<Rightarrow> state" where
  "put_record st rel fm = st\<lparr>meta := (meta st)\<lparr>files := (files (meta st))(rel \<mapsto> fm)\<rparr>\<rparr>"

definition record_success ::
  "env \<Rightarrow> state \<Rightarrow> path \<Rightarrow> string \<Rightarrow> string option \<Rightarrow> string \<Rightarrow> int option \<Rightarrow> string option
     \<Rightarrow> exn option \<times> state" where
  "record_success e st p rel sha v mid fid =
     (case fs st p of
        None \<Rightarrow> (Some FileNotFoundError, st)
      | Some f \<Rightarrow>
          let fm0 = (case files (meta st) rel of Some m \<Rightarrow> m | None \<Rightarrow> new_FileMeta 0 0);
              fm1 = fm0\<lparr>size_fm := int (st_size f), mtime := st_mtime f, sha256 := sha,
                        status := ''uploaded'', uploaded_at := Some (isoformat e (clock st)),
                        sig := Some (make_sig (int (st_size f)) (st_mtime f) sha),
                        via := Some v\<rparr>;
              fm2 = (if v = ''bot'' then fm1\<lparr>message_id := mid, file_id := fid\<rparr>
                     else fm1\<lparr>user_message_id := mid\<rparr>);
              st1 = save e (put_record st rel fm2) (METADATA_FILE e)
          in (None, gui_emit (GuiNotify (''Uploaded '' @ rel)) (gui_emit GuiRefreshTable st1)))"

definition record_failure ::
  "env \<Rightarrow> state \<Rightarrow> string \<Rightarrow> nat \<Rightarrow> rat \<Rightarrow> string \<Rightarrow> exn option \<times> state" where
  "record_failure e st rel sz mt sig_now =
     (let fm0 = (case files (meta st) rel of Some m \<Rightarrow> m | None \<Rightarrow> new_FileMeta (int sz) mt);
          fm1 = fm0\<lparr>status := ''failed'', sig := Some sig_now\<rparr>
      in (None, save e (put_record st rel fm1) (METADATA_FILE e)))"

definition transfer_and_record ::
  "env \<Rightarrow> state \<Rightarrow> path \<Rightarrow> string \<Rightarrow> file_obj \<Rightarrow> exn option \<times> state" where
  "transfer_and_record e st0 p rel f =
     (let sha = sha_of e f; sig_now = sig_of e f in
      case encrypt_step e st0 p rel f of
        ((upload_path, caption, temp_file, sz), st1) \<Rightarrow>
          let st2 = gui_emit (GuiCurrentUpload rel sz) st1 in
          (case send_document e st2 upload_path caption False of
             (Inl x, st3) \<Rightarrow> (Some x, st3)
           | (Inr (v, mid, fid), st3) \<Rightarrow>
               let st4 = clean_temp st3 temp_file in
               if truthy_int mid then record_success e st4 p rel sha v mid fid
               else record_failure e st4 rel sz (st_mtime f) sig_now))"

definition process :: "env \<Rightarrow> state \<Rightarrow> path \<Rightarrow> exn option \<times> state" where
  "process e st p =
     (case relative_to p (CLOUD_DIR e) of
        None \<Rightarrow> (None, st)
      | Some r \<Rightarrow>
          let rel = path_str r in
          (case wait_for_file_readable (fs st) p of
             (False, k) \<Rightarrow> (None, enqueue e (sleep (3 / 2) (sleep (of_nat k / 2) st)) p)
           | (True, k) \<Rightarrow>
               let st0 = sleep (of_nat k / 2) st in
               (case fs st0 p of
                  None \<Rightarrow> (Some FileNotFoundError, st0)
                | Some f \<Rightarrow>
                    if already_synced (files (meta st0) rel) (sig_of e f) then (None, st0)
                    else transfer_and_record e st0 p rel f)))"

text \<open>
  One turn of \<open>_worker_loop\<close> with the pool running: an empty queue leaves the state as
  it is; otherwise the first path is taken and processed, and an exception of
  \<open>_process\<close> is logged and dropped.
\<close>

definition worker_iteration :: "env \<Rightarrow> state \<Rightarrow> state" where
  "worker_iteration e st =
     (case queue st of
        [] \<Rightarrow> st
      | p # rest \<Rightarrow> snd (process e (st\<lparr>queue := rest\<rparr>) p))"


section \<open>A concrete installation\<close>

text \<open>
  An environment and a state on which the theorems below are instantiated: the default
  configuration, one file of five bytes in the watched folder, an empty store, and
  endpoints that accept every request.
\<close>

definition demo_env :: env where
  "demo_env =
     \<lparr>work_dir = [''home'', ''tg''], cfg = DEFAULT_CONFIG, fernet_available = True,
      sha256_digest = (\<lambda>b. replicate 32 (CHR ''s'')),
      sha256_hexdigest = (\<lambda>b. ''00''),
      derive_fernet_key = (\<lambda>pp salt. pp @ salt),
      fernet_encrypt = (\<lambda>k d. ''gAAAAA'' @ d),
      json_dumps = (\<lambda>db. ''{}''),
      json_decode = (\<lambda>t. Malformed),
      isoformat = (\<lambda>t. ''2024-01-01T00:00:00''),
      bot_send_reply = Sent (Some 41) (Some ''BQACAgQ''),
      user_send_reply = Some 77,
      bot_getfile_reply = GetFilePath ''documents/file_1'',
      bot_fetch_reply = FetchOk ''hello'',
      user_download_reply = Some ''hello''\<rparr>"

definition demo_path :: path where
  "demo_path = [''home'', ''tg'', ''MyCloudData'', ''a.txt'']"

definition demo_file :: file_obj where
  "demo_file = \<lparr>content = ''hello'', st_mtime = 1700000000\<rparr>"

definition demo_state :: state where
  "demo_state =
     \<lparr>fs = [demo_path \<mapsto> demo_file], meta = new_MetadataDB, queue = [],
      last_event = Map.empty, clock = 1700000100, last_call = 0, user_client = False,
      user_loop = False, user_ready = False, gui = False, trace = []\<rparr>"

text \<open>
  Large-file mode switched on, and a state whose secondary client is initialised and
  ready.
\<close>

definition demo_env_2gb :: env where
  "demo_env_2gb = demo_env\<lparr>cfg := DEFAULT_CONFIG\<lparr>enable_2gb_mode := Some True\<rparr>\<rparr>"

definition with_user_client :: "state \<Rightarrow> state" where
  "with_user_client st = st\<lparr>user_client := True, user_loop := True, user_ready := True\<rparr>"

text \<open>
  A state whose only file has a given number of bytes.
\<close>

definition demo_big_path :: path where
  "demo_big_path = [''home'', ''tg'', ''MyCloudData'', ''big.bin'']"

definition demo_big_state :: "nat \<Rightarrow> state" where
  "demo_big_state n =
     demo_state\<lparr>fs := [demo_big_path \<mapsto> \<lparr>content = replicate n (CHR ''x''), st_mtime = 1700000000\<rparr>]\<rparr>"

text \<open>
  A primary endpoint that answers every request with \<open>ok\<close> false, and a state in which
  the record of \<open>a.txt\<close> is failed and holds the signature of the file as it is.
\<close>

definition demo_env_not_ok :: env where
  "demo_env_not_ok = demo_env\<lparr>bot_send_reply := NotOk\<rparr>"


text \<open>
  A primary endpoint that answers every request with an error status.
\<close>

definition demo_env_error :: env where
  "demo_env_error = demo_env\<lparr>bot_send_reply := ErrorStatus\<rparr>"

text \<open>
  A record left by a transfer through the primary endpoint and reset to pending by a
  scan, the state that holds it, a destination for downloads, and a record left by a
  later transfer through the secondary endpoint.
\<close>

definition demo_bot_record :: FileMeta where
  "demo_bot_record =
     (new_FileMeta 4 1699999999)
       \<lparr>message_id := Some 5, file_id := Some ''OLDFILE'', via := Some ''bot'', status := ''pending''\<rparr>"

definition demo_bot_record_state :: state where
  "demo_bot_record_state = with_user_client (put_record demo_state ''a.txt'' demo_bot_record)"

definition demo_dest :: path where
  "demo_dest = [''home'', ''tg'', ''tgdownloaded'', ''a.txt'']"

definition demo_user_record :: FileMeta where
  "demo_user_record =
     (new_FileMeta 5 1700000000)
       \<lparr>message_id := Some 5, file_id := Some ''OLDFILE'', user_message_id := Some 77,
        via := Some ''user'', status := ''uploaded''\<rparr>"

text \<open>
  A state in which an event for \<open>a.txt\<close> was accepted half a second ago and the queue
  has been emptied since.
\<close>

definition demo_recent_state :: state where
  "demo_recent_state = demo_state\<lparr>last_event := [''a.txt'' \<mapsto> 1700000100 - 1 / 2]\<rparr>"

text \<open>
  A file system whose only file is the metadata file, with a given text.
\<close>

definition demo_metadata_fs :: "string \<Rightarrow> filesystem" where
  "demo_metadata_fs text = [METADATA_FILE demo_env \<mapsto> \<lparr>content = text, st_mtime = 1700000000\<rparr>]"

text \<open>
  Encryption enabled with a passphrase; the same without the cryptography library;
  the same with a primary endpoint that answers with an error status.
\<close>

definition demo_env_enc :: env where
  "demo_env_enc =
     demo_env\<lparr>cfg := DEFAULT_CONFIG\<lparr>encryption_enabled := Some True,
                                      encryption_passphrase := Some ''secret''\<rparr>\<rparr>"

definition demo_env_enc_nolib :: env where
  "demo_env_enc_nolib = demo_env_enc\<lparr>fernet_available := False\<rparr>"

definition demo_env_enc_error :: env where
  "demo_env_enc_error = demo_env_enc\<lparr>bot_send_reply := ErrorStatus\<rparr>"

section \<open>The signature\<close>

declare str_nat.simps [simp del]

lemma of_char_digit_char: "d < 10 \<Longrightarrow> of_char (digit_char d) = 48 + d"
  by (simp add: digit_char_def)

lemma digit_char_inj: "d < 10 \<Longrightarrow> d' < 10 \<Longrightarrow> digit_char d = digit_char d' \<Longrightarrow> d = d'"
  by (metis of_char_digit_char add_left_cancel)

lemma digit_char_not_colon: "d < 10 \<Longrightarrow> digit_char d \<noteq> CHR '':''"
proof
  assume "d < 10" and "digit_char d = CHR '':''"
  then have "(of_char (digit_char d) :: nat) = of_char CHR '':''" by simp
  with \<open>d < 10\<close> show False by (simp add: of_char_digit_char)
qed

lemma digit_char_not_minus: "d < 10 \<Longrightarrow> digit_char d \<noteq> CHR ''-''"
proof
  assume "d < 10" and "digit_char d = CHR ''-''"
  then have "(of_char (digit_char d) :: nat) = of_char CHR ''-''" by simp
  with \<open>d < 10\<close> show False by (simp add: of_char_digit_char)
qed

lemma str_nat_nonempty: "str_nat n \<noteq> []"
  by (subst str_nat.simps) simp

lemma str_nat_digits: "c \<in> set (str_nat n) \<Longrightarrow> \<exists>d<10. c = digit_char d"
proof (induction n arbitrary: c rule: str_nat.induct)
  case (1 n)
  show ?case
  proof (cases "n < 10")
    case True
    with "1.prems" show ?thesis by (subst (asm) str_nat.simps) auto
  next
    case False
    from "1.prems" False have "c \<in> set (str_nat (n div 10)) \<or> c = digit_char (n mod 10)"
      by (subst (asm) str_nat.simps) auto
    then show ?thesis
    proof
      assume "c \<in> set (str_nat (n div 10))"
      with "1.IH" False show ?thesis by blast
    next
      assume "c = digit_char (n mod 10)"
      moreover have "n mod 10 < 10" by simp
      ultimately show ?thesis by blast
    qed
  qed
qed

text \<open>The decimal rendering determines the number: the last digit and the rest.\<close>

lemma str_nat_inj: "str_nat n = str_nat m \<Longrightarrow> n = m"
proof (induction n arbitrary: m rule: str_nat.induct)
  case (1 n)
  show ?case
  proof (cases "n < 10")
    case n: True
    show ?thesis
    proof (cases "m < 10")
      case True
      with n "1.prems" have "digit_char n = digit_char m"
        by (simp add: str_nat.simps)
      with n True show ?thesis by (rule digit_char_inj)
    next
      case False
      with n "1.prems" have "[digit_char n] = str_nat (m div 10) @ [digit_char (m mod 10)]"
        by (simp add: str_nat.simps[of n] str_nat.simps[of m])
      then have "str_nat (m div 10) = []" by simp
      with str_nat_nonempty show ?thesis by blast
    qed
  next
    case n: False
    show ?thesis
    proof (cases "m < 10")
      case True
      with n "1.prems" have "str_nat (n div 10) @ [digit_char (n mod 10)] = [digit_char m]"
        by (simp add: str_nat.simps[of n] str_nat.simps[of m])
      then have "str_nat (n div 10) = []" by simp
      with str_nat_nonempty show ?thesis by blast
    next
      case False
      with n "1.prems"
      have eq: "str_nat (n div 10) @ [digit_char (n mod 10)]
                  = str_nat (m div 10) @ [digit_char (m mod 10)]"
        by (simp add: str_nat.simps[of n] str_nat.simps[of m])
      then have a: "str_nat (n div 10) = str_nat (m div 10)"
        and b: "digit_char (n mod 10) = digit_char (m mod 10)"
        by simp_all
      from "1.IH"[OF n a] have "n div 10 = m div 10" .
      moreover from b have "n mod 10 = m mod 10" by (intro digit_char_inj) simp_all
      ultimately show ?thesis by (metis div_mult_mod_eq)
    qed
  qed
qed

lemma hd_str_nat_not_minus: "hd (str_nat n) \<noteq> CHR ''-''"
proof -
  have "hd (str_nat n) \<in> set (str_nat n)" using str_nat_nonempty by simp
  then obtain d where "d < 10" "hd (str_nat n) = digit_char d" using str_nat_digits by blast
  then show ?thesis using digit_char_not_minus by simp
qed

lemma str_int_inj: "str_int a = str_int b \<Longrightarrow> a = b"
proof -
  assume eq: "str_int a = str_int b"
  show ?thesis
  proof (cases "a < 0"; cases "b < 0")
    assume "a < 0" "b < 0"
    with eq have "str_nat (nat (- a)) = str_nat (nat (- b))" by (simp add: str_int_def)
    then have "nat (- a) = nat (- b)" by (rule str_nat_inj)
    with \<open>a < 0\<close> \<open>b < 0\<close> show ?thesis by simp
  next
    assume "a < 0" "\<not> b < 0"
    with eq have "CHR ''-'' # str_nat (nat (- a)) = str_nat (nat b)" by (simp add: str_int_def)
    then have "hd (str_nat (nat b)) = CHR ''-''" by (metis list.sel(1))
    with hd_str_nat_not_minus show ?thesis by blast
  next
    assume "\<not> a < 0" "b < 0"
    with eq have "CHR ''-'' # str_nat (nat (- b)) = str_nat (nat a)" by (simp add: str_int_def)
    then have "hd (str_nat (nat a)) = CHR ''-''" by (metis list.sel(1))
    with hd_str_nat_not_minus show ?thesis by blast
  next
    assume "\<not> a < 0" "\<not> b < 0"
    with eq have "str_nat (nat a) = str_nat (nat b)" by (simp add: str_int_def)
    then have "nat a = nat b" by (rule str_nat_inj)
    with \<open>\<not> a < 0\<close> \<open>\<not> b < 0\<close> show ?thesis by simp
  qed
qed

lemma str_int_no_colon: "CHR '':'' \<notin> set (str_int a)"
proof
  assume "CHR '':'' \<in> set (str_int a)"
  then have "CHR '':'' \<in> set (str_nat (nat (- a))) \<or> CHR '':'' \<in> set (str_nat (nat a))"
    by (auto simp: str_int_def split: if_splits)
  then obtain d where "d < 10" "CHR '':'' = digit_char d" using str_nat_digits by blast
  then show False using digit_char_not_colon by metis
qed

text \<open>A field without a colon, followed by a colon, can be read back in one way only.\<close>

lemma split_at_colon:
  assumes "CHR '':'' \<notin> set xs" and "CHR '':'' \<notin> set ys"
    and "xs @ CHR '':'' # r = ys @ CHR '':'' # r'"
  shows "xs = ys \<and> r = r'"
proof -
  have tw: "CHR '':'' \<notin> set zs \<Longrightarrow> takeWhile (\<lambda>c. c \<noteq> CHR '':'') (zs @ CHR '':'' # t) = zs"
    for zs t
    by (induction zs) auto
  have "takeWhile (\<lambda>c. c \<noteq> CHR '':'') (xs @ CHR '':'' # r) = xs"
    using assms(1) by (rule tw)
  moreover have "takeWhile (\<lambda>c. c \<noteq> CHR '':'') (ys @ CHR '':'' # r') = ys"
    using assms(2) by (rule tw)
  ultimately have "xs = ys" using assms(3) by simp
  with assms(3) show ?thesis by simp
qed

text \<open>
  C1, as the code has it. Two signatures are equal exactly when the sizes are equal, the
  modification times are equal after truncation to whole seconds, and the hashes are
  equal once an absent hash is read as the empty string. So a change of the size, of
  the whole second of the modification time or of a non-empty hash changes the
  signature.
\<close>

theorem make_sig_eq_iff:
  "make_sig sz mt sha = make_sig sz' mt' sha'
     \<longleftrightarrow> sz = sz' \<and> py_int mt = py_int mt' \<and> or_empty sha = or_empty sha'"
proof
  assume eq: "make_sig sz mt sha = make_sig sz' mt' sha'"
  then have "str_int sz @ CHR '':'' # (str_int (py_int mt) @ CHR '':'' # or_empty sha)
      = str_int sz' @ CHR '':'' # (str_int (py_int mt') @ CHR '':'' # or_empty sha')"
    by (simp add: make_sig_def)
  from split_at_colon[OF str_int_no_colon str_int_no_colon this]
  have a: "str_int sz = str_int sz'"
    and r: "str_int (py_int mt) @ CHR '':'' # or_empty sha
              = str_int (py_int mt') @ CHR '':'' # or_empty sha'"
    by simp_all
  from split_at_colon[OF str_int_no_colon str_int_no_colon r]
  have b: "str_int (py_int mt) = str_int (py_int mt')" and c: "or_empty sha = or_empty sha'"
    by simp_all
  from a b c show "sz = sz' \<and> py_int mt = py_int mt' \<and> or_empty sha = or_empty sha'"
    by (simp add: str_int_inj)
next
  assume "sz = sz' \<and> py_int mt = py_int mt' \<and> or_empty sha = or_empty sha'"
  then show "make_sig sz mt sha = make_sig sz' mt' sha'" by (simp add: make_sig_def)
qed

text \<open>
  C1 as stated fails: two modification times within the same second give the same
  signature, and so do an absent hash and an empty one.
\<close>

theorem make_sig_not_injective:
  "make_sig 120 (3 / 2) None = make_sig 120 1 None \<and> (3 / 2 :: rat) \<noteq> 1
   \<and> make_sig 120 1 None = make_sig 120 1 (Some []) \<and> None \<noteq> Some ([] :: string)"
  by code_simp


section \<open>Facts about the operations\<close>

lemmas demo_defs = demo_env_def demo_state_def demo_file_def demo_path_def demo_big_path_def
  demo_big_state_def with_user_client_def demo_env_2gb_def DEFAULT_CONFIG_def cfg_get_def

lemma guard_fs [simp]: "fs (guard e st) = fs st"
  by (simp add: guard_def sleep_def Let_def)

lemma guard_trace [simp]: "trace (guard e st) = trace st"
  by (simp add: guard_def sleep_def Let_def)

lemma guard_meta [simp]: "meta (guard e st) = meta st"
  by (simp add: guard_def sleep_def Let_def)

declare bot_send_document.simps [simp del]

lemma bot_send_document_effect:
  "fs st p = Some f \<Longrightarrow>
     \<exists>n. trace (snd (bot_send_document e r st p c)) = trace st @ replicate (Suc n) (BotSend p c (content f))
       \<and> fs (snd (bot_send_document e r st p c)) = fs st
       \<and> meta (snd (bot_send_document e r st p c)) = meta st"
proof (induction r arbitrary: st)
  case (TooManyRequests k r)
  let ?st2 = "sleep (of_nat k + 1) (emit (BotSend p c (content f)) (guard e st))"
  have "fs ?st2 p = Some f" using TooManyRequests.prems by (simp add: sleep_def emit_def)
  from TooManyRequests.IH[OF this] obtain n where
    n: "trace (snd (bot_send_document e r ?st2 p c)) = trace ?st2 @ replicate (Suc n) (BotSend p c (content f))"
       "fs (snd (bot_send_document e r ?st2 p c)) = fs ?st2"
       "meta (snd (bot_send_document e r ?st2 p c)) = meta ?st2"
    by blast
  have "bot_send_document e (TooManyRequests k r) st p c = bot_send_document e r ?st2 p c"
    using TooManyRequests.prems by (subst bot_send_document.simps) (simp add: Let_def)
  with n have "trace (snd (bot_send_document e (TooManyRequests k r) st p c)) = trace st @ replicate (Suc (Suc n)) (BotSend p c (content f))
      \<and> fs (snd (bot_send_document e (TooManyRequests k r) st p c)) = fs st
      \<and> meta (snd (bot_send_document e (TooManyRequests k r) st p c)) = meta st"
    by (simp add: sleep_def emit_def)
  then show ?case by blast
qed (auto simp: emit_def bot_send_document.simps[of _ PostRaises] bot_send_document.simps[of _ ErrorStatus]
     bot_send_document.simps[of _ NotOk] bot_send_document.simps[of _ "Sent _ _"] Let_def intro: exI[of _ 0])

lemma wait_for_file_readable_present:
  "fsys p = Some f \<Longrightarrow> wait_for_file_readable fsys p = (True, 3)"
proof -
  assume f: "fsys p = Some f"
  show ?thesis using f
    by (simp add: wait_for_file_readable_def Let_def eval_nat_numeral)
qed

lemma process_present:
  assumes "relative_to p (CLOUD_DIR e) = Some r" and "fs st p = Some f"
  shows "process e st p =
    (if already_synced (files (meta st) (path_str r)) (sig_of e f) then (None, sleep (3 / 2) st)
     else transfer_and_record e (sleep (3 / 2) st) p (path_str r) f)"
  using assms by (simp add: process_def wait_for_file_readable_present sleep_def Let_def)


lemma name_suffix_metadata: "name_suffix ''metadata.json'' = ''.json''"
  by (simp add: name_suffix_def)

lemma with_suffix_METADATA_FILE:
  "with_suffix (METADATA_FILE e) ''.tmp'' = Some (work_dir e @ [''metadata.tmp''])"
  by (simp add: with_suffix_def METADATA_FILE_def path_name_def name_suffix_metadata)

lemma save_METADATA_FILE:
  "save e st (METADATA_FILE e) =
     st\<lparr>fs := ((fs st)(work_dir e @ [''metadata.tmp''] := None))
              (METADATA_FILE e \<mapsto> \<lparr>content = json_dumps e (meta st), st_mtime = clock st\<rparr>)\<rparr>"
  by (simp add: save_def with_suffix_METADATA_FILE replace_file_def Let_def)

lemma record_failure_effect:
  "record_failure e st rel sz mt sg = (None, st') \<Longrightarrow>
     (\<exists>fm. files (meta st') rel = Some fm \<and> status fm = ''failed'' \<and> sig fm = Some sg)
     \<and> map_option content (fs st' (METADATA_FILE e)) = Some (json_dumps e (meta st'))
     \<and> trace st' = trace st"
  by (auto simp: record_failure_def save_METADATA_FILE put_record_def Let_def)

lemma record_failure_returns: "fst (record_failure e st rel sz mt sg) = None"
  by (simp add: record_failure_def Let_def)

lemma user_send_document_effect:
  "\<exists>mid st'. user_send_document e st p c = ((mid, None), st') \<and> fs st' = fs st \<and> meta st' = meta st
     \<and> (trace st' = trace st \<or> (\<exists>f. fs st p = Some f \<and> trace st' = trace st @ [UserSend p c (content f)]))"
  by (auto simp: user_send_document_def emit_def Let_def split: option.splits)

section \<open>Routing of a transfer\<close>

text \<open>
  C10. With the default value of \<open>force_user_api\<close> (true in \<open>DEFAULT_CONFIG\<close>, and true
  when the key is absent), large-file mode on and the secondary client initialised and
  ready, every send returns the transport \<open>user\<close> whatever the file and its size are:
  the only request it can make is one to the secondary endpoint, and with the client's
  loop present and the file on disk it makes exactly that one. The size is never
  compared with the ceiling of the primary endpoint.
\<close>

theorem send_document_default_forces_user:
  assumes "cfg_get False (enable_2gb_mode (cfg e))" and "user_client st" and "user_ready st"
    and "force_user_api (cfg e) = force_user_api DEFAULT_CONFIG \<or> force_user_api (cfg e) = None"
  shows "\<exists>mid st'. send_document e st p caption prefer_user = (Inr (''user'', mid, None), st')
           \<and> (trace st' = trace st
                \<or> (\<exists>f. fs st p = Some f \<and> trace st' = trace st @ [UserSend p caption (content f)]))
           \<and> (user_loop st \<longrightarrow> (\<forall>f. fs st p = Some f \<longrightarrow>
                 mid = user_send_reply e \<and> trace st' = trace st @ [UserSend p caption (content f)]))"
proof -
  from assms(4) have force: "cfg_get True (force_user_api (cfg e))"
    by (auto simp: DEFAULT_CONFIG_def cfg_get_def)
  with assms(1-3) have eq: "send_document e st p caption prefer_user = user_path e st p caption"
    by (simp add: send_document_def)
  show ?thesis
    unfolding eq using assms(2,3)
    by (auto simp: user_path_def user_send_document_def emit_def Let_def split: option.splits)
qed


text \<open>
  C10 on the concrete installation with large-file mode on and the secondary client
  ready: the five-byte file goes to the secondary endpoint.
\<close>

theorem send_document_default_forces_user_witness: "send_document demo_env_2gb (with_user_client demo_state) demo_path ''a.txt'' False
    = (Inr (''user'', Some 77, None), with_user_client demo_state\<lparr>trace := [UserSend demo_path ''a.txt'' ''hello'']\<rparr>)"
  using send_document_default_forces_user[where e = demo_env_2gb
      and st = "with_user_client demo_state" and p = demo_path and caption = "''a.txt''"
      and prefer_user = False]
  by (simp add: demo_defs send_document_def user_path_def user_send_document_def emit_def)


lemma encrypt_step_effect:
  assumes "encrypt_step e st p rel f = ((up, cap, tmp, sz), st1)" and "fs st p = Some f"
  shows "\<exists>g. fs st1 up = Some g \<and> st_size g = sz"
    and "meta st1 = meta st" and "trace st1 = trace st" and "gui st1 = gui st"
    and "user_client st1 = user_client st" and "user_ready st1 = user_ready st"
    and "tmp = None \<or> tmp = Some (enc_path p)"
  using assms
  by (auto simp: encrypt_step_def Let_def st_size_def split: if_splits)

lemma bot_path_oversized:
  "fs st p = Some f \<Longrightarrow> st_size f > BOT_LIMIT \<Longrightarrow> bot_path e st p c = (Inr (''bot'', None, None), st)"
  by (simp add: bot_path_def)

lemma send_document_oversized:
  "fs st p = Some f \<Longrightarrow> st_size f > BOT_LIMIT \<Longrightarrow> \<not> cfg_get False (enable_2gb_mode (cfg e))
     \<Longrightarrow> send_document e st p c pu = (Inr (''bot'', None, None), st)"
  by (simp add: send_document_def bot_path_oversized)

lemma bot_path_in_range:
  assumes "fs st p = Some f" and "st_size f \<le> BOT_LIMIT"
  shows "\<exists>res st' n. bot_path e st p c = (res, st')
           \<and> trace st' = trace st @ replicate (Suc n) (BotSend p c (content f))
           \<and> (\<forall>v mid fid. res = Inr (v, mid, fid) \<longrightarrow> v = ''bot'')"
proof -
  from bot_send_document_effect[OF assms(1), of e "bot_send_reply e" c] obtain n where
    n: "trace (snd (bot_send_document e (bot_send_reply e) st p c))
          = trace st @ replicate (Suc n) (BotSend p c (content f))"
    by blast
  obtain res1 st1 where r: "bot_send_document e (bot_send_reply e) st p c = (res1, st1)"
    by (cases "bot_send_document e (bot_send_reply e) st p c")
  with n have t: "trace st1 = trace st @ replicate (Suc n) (BotSend p c (content f))" by simp
  show ?thesis
  proof (cases res1)
    case (Inl x)
    with assms r t show ?thesis by (simp add: bot_path_def)
  next
    case (Inr b)
    with assms r t show ?thesis by (cases b) (simp add: bot_path_def)
  qed
qed

lemma clean_temp_keeps [simp]:
  "meta (clean_temp st t) = meta st" "trace (clean_temp st t) = trace st"
  by (simp_all add: clean_temp_def split: option.splits)

lemma gui_emit_keeps [simp]:
  "meta (gui_emit ev st) = meta st" "fs (gui_emit ev st) = fs st"
  "user_client (gui_emit ev st) = user_client st" "user_ready (gui_emit ev st) = user_ready st"
  "user_loop (gui_emit ev st) = user_loop st" "clock (gui_emit ev st) = clock st"
  by (simp_all add: gui_emit_def emit_def)

lemma sleep_keeps [simp]:
  "meta (sleep d st) = meta st" "fs (sleep d st) = fs st" "trace (sleep d st) = trace st"
  "gui (sleep d st) = gui st" "user_client (sleep d st) = user_client st"
  "user_ready (sleep d st) = user_ready st" "user_loop (sleep d st) = user_loop st"
  "queue (sleep d st) = queue st" "last_event (sleep d st) = last_event st"
  by (simp_all add: sleep_def)

lemma process_unroutable:
  assumes rel: "relative_to p (CLOUD_DIR e) = Some r" and f: "fs st p = Some f"
    and ns: "\<not> already_synced (files (meta st) (path_str r)) (sig_of e f)"
    and off: "\<not> cfg_get False (enable_2gb_mode (cfg e))"
    and enc: "encrypt_step e (sleep (3 / 2) st) p (path_str r) f = ((up, cap, tmp, sz), st1)"
    and big: "sz > BOT_LIMIT"
  shows "\<exists>st'. process e st p = (None, st')
           \<and> (\<exists>fm. files (meta st') (path_str r) = Some fm \<and> status fm = ''failed'')
           \<and> trace st' = trace (gui_emit (GuiCurrentUpload (path_str r) sz) st)"
proof -
  let ?st2 = "gui_emit (GuiCurrentUpload (path_str r) sz) st1"
  from encrypt_step_effect[OF enc] f obtain g where g: "fs st1 up = Some g" "st_size g = sz"
    and t1: "trace st1 = trace st" and g1: "gui st1 = gui st"
    by auto
  from g big off have send: "send_document e ?st2 up cap False = (Inr (''bot'', None, None), ?st2)"
    by (intro send_document_oversized[where f = g]) simp_all
  obtain st' where st': "record_failure e (clean_temp ?st2 tmp) (path_str r) sz (st_mtime f) (sig_of e f) = (None, st')"
    using record_failure_returns by (metis prod.collapse)
  have "process e st p = (None, st')"
    using rel f ns enc send st'
    by (simp add: process_present transfer_and_record_def truthy_int_def Let_def)
  moreover from record_failure_effect[OF st']
  have "(\<exists>fm. files (meta st') (path_str r) = Some fm \<and> status fm = ''failed'')"
    and "trace st' = trace (clean_temp ?st2 tmp)" by auto
  moreover have "trace (clean_temp ?st2 tmp) = trace (gui_emit (GuiCurrentUpload (path_str r) sz) st)"
    using t1 g1 by (simp add: gui_emit_def emit_def)
  ultimately show ?thesis by auto
qed

text \<open>
  C2, as the code has it, for a file \<open>f\<close> at path \<open>p\<close>.
  A file of exactly \<open>BOT_LIMIT\<close> bytes goes to the primary endpoint unless large-file
  mode is on with the secondary client ready and \<open>force_user_api\<close> set: the requests
  sent are one or more \<open>sendDocument\<close> requests of the primary endpoint for that file
  (more than one only after a 429), and a result that is returned has transport \<open>bot\<close>.
  A file over the ceiling, with large-file mode off, makes \<open>send_document\<close> return
  \<open>("bot", None, None)\<close> with the state as it was, so nothing was sent.
  And when the file handed to the router by \<open>_process\<close> (the file itself, or its
  encrypted copy) is over the ceiling with large-file mode off, \<open>_process\<close> returns
  with the file's record at status \<open>failed\<close>, and the trace shows no request.
\<close>

theorem send_document_boundary:
  assumes "fs st p = Some f"
  shows
    "(st_size f = BOT_LIMIT
        \<and> \<not> (cfg_get False (enable_2gb_mode (cfg e)) \<and> user_client st \<and> user_ready st
              \<and> cfg_get True (force_user_api (cfg e)))
      \<longrightarrow> (\<exists>res st' n. send_document e st p caption False = (res, st')
             \<and> trace st' = trace st @ replicate (Suc n) (BotSend p caption (content f))
             \<and> (\<forall>v mid fid. res = Inr (v, mid, fid) \<longrightarrow> v = ''bot'')))
     \<and> (st_size f > BOT_LIMIT \<and> \<not> cfg_get False (enable_2gb_mode (cfg e))
      \<longrightarrow> send_document e st p caption prefer_user = (Inr (''bot'', None, None), st))
     \<and> (relative_to p (CLOUD_DIR e) = Some r
        \<and> \<not> already_synced (files (meta st) (path_str r)) (sig_of e f)
        \<and> \<not> cfg_get False (enable_2gb_mode (cfg e))
        \<and> encrypt_step e (sleep (3 / 2) st) p (path_str r) f = ((up, cap, tmp, sz), st1)
        \<and> sz > BOT_LIMIT
      \<longrightarrow> (\<exists>st'. process e st p = (None, st')
             \<and> (\<exists>fm. files (meta st') (path_str r) = Some fm \<and> status fm = ''failed'')
             \<and> trace st' = trace (gui_emit (GuiCurrentUpload (path_str r) sz) st)))"
proof (intro conjI impI)
  assume a: "st_size f = BOT_LIMIT
        \<and> \<not> (cfg_get False (enable_2gb_mode (cfg e)) \<and> user_client st \<and> user_ready st
              \<and> cfg_get True (force_user_api (cfg e)))"
  with assms have "send_document e st p caption False = bot_path e st p caption"
    by (auto simp: send_document_def)
  moreover from a have "st_size f \<le> BOT_LIMIT" by simp
  ultimately show "\<exists>res st' n. send_document e st p caption False = (res, st')
             \<and> trace st' = trace st @ replicate (Suc n) (BotSend p caption (content f))
             \<and> (\<forall>v mid fid. res = Inr (v, mid, fid) \<longrightarrow> v = ''bot'')"
    using bot_path_in_range[OF assms, of e caption] by simp
next
  assume "st_size f > BOT_LIMIT \<and> \<not> cfg_get False (enable_2gb_mode (cfg e))"
  with assms show "send_document e st p caption prefer_user = (Inr (''bot'', None, None), st)"
    by (simp add: send_document_oversized)
next
  assume "relative_to p (CLOUD_DIR e) = Some r
        \<and> \<not> already_synced (files (meta st) (path_str r)) (sig_of e f)
        \<and> \<not> cfg_get False (enable_2gb_mode (cfg e))
        \<and> encrypt_step e (sleep (3 / 2) st) p (path_str r) f = ((up, cap, tmp, sz), st1)
        \<and> sz > BOT_LIMIT"
  with assms show "\<exists>st'. process e st p = (None, st')
             \<and> (\<exists>fm. files (meta st') (path_str r) = Some fm \<and> status fm = ''failed'')
             \<and> trace st' = trace (gui_emit (GuiCurrentUpload (path_str r) sz) st)"
    using process_unroutable by blast
qed


text \<open>
  C2 as stated fails: with large-file mode on, the secondary client ready and the
  default \<open>force_user_api\<close>, a file of exactly \<open>BOT_LIMIT\<close> bytes is sent through the
  secondary endpoint.
\<close>

theorem send_document_ceiling_to_secondary:
  "st_size (the (fs (with_user_client (demo_big_state BOT_LIMIT)) demo_big_path)) = BOT_LIMIT
   \<and> fst (send_document demo_env_2gb (with_user_client (demo_big_state BOT_LIMIT)) demo_big_path ''big.bin'' False)
       = Inr (''user'', Some 77, None)
   \<and> trace (snd (send_document demo_env_2gb (with_user_client (demo_big_state BOT_LIMIT)) demo_big_path ''big.bin'' False))
       = [UserSend demo_big_path ''big.bin'' (replicate BOT_LIMIT (CHR ''x''))]"
  by (simp add: demo_defs st_size_def send_document_def user_path_def user_send_document_def emit_def)

text \<open>
  C2 on the concrete installation: a file of \<open>BOT_LIMIT\<close> bytes is sent through the
  primary endpoint, a file of one byte more is not sent and is recorded as failed.
\<close>

theorem send_document_boundary_witness:
  "fst (send_document demo_env (demo_big_state BOT_LIMIT) demo_big_path ''big.bin'' False)
       = Inr (''bot'', Some 41, Some ''BQACAgQ'')
   \<and> trace (snd (send_document demo_env (demo_big_state BOT_LIMIT) demo_big_path ''big.bin'' False))
       = [BotSend demo_big_path ''big.bin'' (replicate BOT_LIMIT (CHR ''x''))]
   \<and> send_document demo_env (demo_big_state (BOT_LIMIT + 1)) demo_big_path ''big.bin'' False
       = (Inr (''bot'', None, None), demo_big_state (BOT_LIMIT + 1))
   \<and> (\<exists>st'. process demo_env (demo_big_state (BOT_LIMIT + 1)) demo_big_path = (None, st')
         \<and> (\<exists>fm. files (meta st') ''big.bin'' = Some fm \<and> status fm = ''failed'')
         \<and> trace st' = [])"
proof -
  let ?f = "\<lambda>n. \<lparr>content = replicate n (CHR ''x''), st_mtime = 1700000000\<rparr>"
  let ?lim = "demo_big_state BOT_LIMIT" and ?over = "demo_big_state (BOT_LIMIT + 1)"
  have f1: "fs ?lim demo_big_path = Some (?f BOT_LIMIT)"
    and f2: "fs ?over demo_big_path = Some (?f (BOT_LIMIT + 1))"
    by (simp_all add: demo_defs)
  have a: "st_size (?f BOT_LIMIT) = BOT_LIMIT
        \<and> \<not> (cfg_get False (enable_2gb_mode (cfg demo_env)) \<and> user_client ?lim \<and> user_ready ?lim
              \<and> cfg_get True (force_user_api (cfg demo_env)))"
    by (simp add: demo_defs st_size_def)
  have b: "st_size (?f (BOT_LIMIT + 1)) > BOT_LIMIT \<and> \<not> cfg_get False (enable_2gb_mode (cfg demo_env))"
    by (simp add: demo_defs st_size_def)
  have c: "relative_to demo_big_path (CLOUD_DIR demo_env) = Some [''big.bin'']
        \<and> \<not> already_synced (files (meta ?over) (path_str [''big.bin''])) (sig_of demo_env (?f (BOT_LIMIT + 1)))
        \<and> \<not> cfg_get False (enable_2gb_mode (cfg demo_env))
        \<and> encrypt_step demo_env (sleep (3 / 2) ?over) demo_big_path (path_str [''big.bin'']) (?f (BOT_LIMIT + 1))
            = ((demo_big_path, ''big.bin'', None, BOT_LIMIT + 1), sleep (3 / 2) ?over)
        \<and> BOT_LIMIT + 1 > BOT_LIMIT"
    by (simp add: demo_defs CLOUD_DIR_def already_synced_def new_MetadataDB_def path_str_def
        encrypt_step_def st_size_def)
  from send_document_boundary[OF f1, where e = demo_env and caption = "''big.bin''"] a
  have r1: "\<exists>res st' n. send_document demo_env ?lim demo_big_path ''big.bin'' False = (res, st')
      \<and> trace st' = trace ?lim @ replicate (Suc n) (BotSend demo_big_path ''big.bin'' (replicate BOT_LIMIT (CHR ''x'')))
      \<and> (\<forall>v mid fid. res = Inr (v, mid, fid) \<longrightarrow> v = ''bot'')"
    by simp
  from send_document_boundary[OF f2, where e = demo_env and caption = "''big.bin''" and prefer_user = False] b
  have r2: "send_document demo_env ?over demo_big_path ''big.bin'' False = (Inr (''bot'', None, None), ?over)"
    by blast
  from send_document_boundary[OF f2, where e = demo_env and r = "[''big.bin'']" and up = demo_big_path
      and cap = "''big.bin''" and tmp = None and sz = "BOT_LIMIT + 1" and ?st1.0 = "sleep (3 / 2) ?over"] c
  have r3: "\<exists>st'. process demo_env ?over demo_big_path = (None, st')
             \<and> (\<exists>fm. files (meta st') (path_str [''big.bin'']) = Some fm \<and> status fm = ''failed'')
             \<and> trace st' = trace (gui_emit (GuiCurrentUpload (path_str [''big.bin'']) (BOT_LIMIT + 1)) ?over)"
    by blast
  have e1: "send_document demo_env ?lim demo_big_path ''big.bin'' False
      = (Inr (''bot'', Some 41, Some ''BQACAgQ''),
         emit (BotSend demo_big_path ''big.bin'' (replicate BOT_LIMIT (CHR ''x''))) (guard demo_env ?lim))"
    by (simp add: demo_defs send_document_def bot_path_def st_size_def bot_send_document.simps Let_def)
  have "trace ?lim = []" by (simp add: demo_defs)
  with e1 r2 r3 show ?thesis
    by (simp add: emit_def path_str_def gui_emit_def demo_big_state_def demo_state_def)
qed

section \<open>Recording the outcome of a transfer\<close>

lemma enc_path_neq: "enc_path p \<noteq> p"
proof
  assume eq: "enc_path p = p"
  show False
  proof (cases "p = []")
    case True
    with eq show False by (simp add: enc_path_def)
  next
    case False
    then have "p = butlast p @ [last p]" by simp
    with eq False have "butlast p @ [last p @ ''.enc''] = butlast p @ [last p]"
      by (simp add: enc_path_def)
    then show False by simp
  qed
qed

lemma user_path_keeps:
  "fs (snd (user_path e st p c)) = fs st" "meta (snd (user_path e st p c)) = meta st"
  by (auto simp: user_path_def user_send_document_def emit_def Let_def split: option.splits)

lemma bot_path_keeps:
  "fs (snd (bot_path e st p c)) = fs st \<and> meta (snd (bot_path e st p c)) = meta st"
proof (cases "fs st p")
  case None
  then show ?thesis by (simp add: bot_path_def)
next
  case (Some f)
  from bot_send_document_effect[OF Some, of e "bot_send_reply e" c]
  have k: "fs (snd (bot_send_document e (bot_send_reply e) st p c)) = fs st"
    "meta (snd (bot_send_document e (bot_send_reply e) st p c)) = meta st" by auto
  obtain res st1 where r: "bot_send_document e (bot_send_reply e) st p c = (res, st1)"
    by (cases "bot_send_document e (bot_send_reply e) st p c")
  with k have "fs st1 = fs st" "meta st1 = meta st" by simp_all
  with Some r show ?thesis
    by (cases res) (auto simp: bot_path_def split: prod.splits)
qed

lemma send_document_keeps:
  "fs (snd (send_document e st p c pu)) = fs st" "meta (snd (send_document e st p c pu)) = meta st"
  by (auto simp: send_document_def user_path_keeps bot_path_keeps Let_def split: option.splits)

lemma send_document_keeps':
  "send_document e st p c pu = (res, st') \<Longrightarrow> fs st' = fs st \<and> meta st' = meta st"
  using send_document_keeps[of e st p c pu] by simp

lemma record_success_effect:
  assumes "fs st p = Some f"
  shows "\<exists>st'. record_success e st p rel sha v mid fid = (None, st')
     \<and> files (meta st') rel =
         Some (let fm1 = (case files (meta st) rel of Some m \<Rightarrow> m | None \<Rightarrow> new_FileMeta 0 0)
                  \<lparr>size_fm := int (st_size f), mtime := st_mtime f, sha256 := sha,
                   status := ''uploaded'', uploaded_at := Some (isoformat e (clock st)),
                   sig := Some (make_sig (int (st_size f)) (st_mtime f) sha), via := Some v\<rparr>
               in if v = ''bot'' then fm1\<lparr>message_id := mid, file_id := fid\<rparr>
                  else fm1\<lparr>user_message_id := mid\<rparr>)
     \<and> map_option content (fs st' (METADATA_FILE e)) = Some (json_dumps e (meta st'))
     \<and> fs st' = ((fs st)(work_dir e @ [''metadata.tmp''] := None))
              (METADATA_FILE e \<mapsto> \<lparr>content = json_dumps e (meta st'), st_mtime = clock st\<rparr>)"
  using assms
  by (simp add: record_success_def save_METADATA_FILE put_record_def gui_emit_def emit_def Let_def)


lemma process_send_returned:
  assumes rel: "relative_to p (CLOUD_DIR e) = Some r" and f: "fs st p = Some f"
    and ns: "\<not> already_synced (files (meta st) (path_str r)) (sig_of e f)"
    and enc: "encrypt_step e (sleep (3 / 2) st) p (path_str r) f = ((up, cap, tmp, sz), st1)"
    and send: "send_document e (gui_emit (GuiCurrentUpload (path_str r) sz) st1) up cap False
                 = (Inr (v, mid, fid), st3)"
  shows "process e st p =
     (if truthy_int mid then record_success e (clean_temp st3 tmp) p (path_str r) (sha_of e f) v mid fid
      else record_failure e (clean_temp st3 tmp) (path_str r) sz (st_mtime f) (sig_of e f))"
  using assms by (simp add: process_present transfer_and_record_def Let_def)

lemma process_send_raises:
  assumes rel: "relative_to p (CLOUD_DIR e) = Some r" and f: "fs st p = Some f"
    and ns: "\<not> already_synced (files (meta st) (path_str r)) (sig_of e f)"
    and enc: "encrypt_step e (sleep (3 / 2) st) p (path_str r) f = ((up, cap, tmp, sz), st1)"
    and send: "send_document e (gui_emit (GuiCurrentUpload (path_str r) sz) st1) up cap False
                 = (Inl x, st3)"
  shows "process e st p = (Some x, st3)" and "fs st3 = fs st1" and "meta st3 = meta st"
proof -
  show "process e st p = (Some x, st3)"
    using assms by (simp add: process_present transfer_and_record_def Let_def)
  from send_document_keeps'[OF send] show "fs st3 = fs st1" by simp
  from send_document_keeps'[OF send] encrypt_step_effect(2)[OF enc] f
  show "meta st3 = meta st" by simp
qed

lemma process_failure:
  assumes rel: "relative_to p (CLOUD_DIR e) = Some r" and f: "fs st p = Some f"
    and ns: "\<not> already_synced (files (meta st) (path_str r)) (sig_of e f)"
    and enc: "encrypt_step e (sleep (3 / 2) st) p (path_str r) f = ((up, cap, tmp, sz), st1)"
    and send: "send_document e (gui_emit (GuiCurrentUpload (path_str r) sz) st1) up cap False
                 = (Inr (v, mid, fid), st3)"
    and nomid: "\<not> truthy_int mid"
  shows "\<exists>st'. process e st p = (None, st')
           \<and> (\<exists>fm. files (meta st') (path_str r) = Some fm \<and> status fm = ''failed''
                  \<and> sig fm = Some (sig_of e f))
           \<and> map_option content (fs st' (METADATA_FILE e)) = Some (json_dumps e (meta st'))"
proof -
  obtain st' where st': "record_failure e (clean_temp st3 tmp) (path_str r) sz (st_mtime f) (sig_of e f) = (None, st')"
    using record_failure_returns by (metis prod.collapse)
  from process_send_returned[OF rel f ns enc send] nomid st'
  have "process e st p = (None, st')" by simp
  with record_failure_effect[OF st'] show ?thesis by auto
qed

text \<open>
  The branch without a message reference. Take a path under the watched folder whose
  file is on disk and not already synced, and suppose the transfer returns to the
  engine without a message reference (the router found no route, the endpoint answered
  \<open>ok\<close> false, or the secondary session failed). Then \<open>_process\<close> returns without an
  exception, and so does the worker's turn that took the path from the queue; the
  file's record has status \<open>failed\<close> and the signature computed from the file as it
  was when the attempt started; and the metadata file holds the serialised store.
\<close>

lemma process_records_failure:
  assumes "relative_to p (CLOUD_DIR e) = Some r" and "fs st p = Some f"
    and "\<not> already_synced (files (meta st) (path_str r)) (sig_of e f)"
    and "encrypt_step e (sleep (3 / 2) st) p (path_str r) f = ((up, cap, tmp, sz), st1)"
    and "send_document e (gui_emit (GuiCurrentUpload (path_str r) sz) st1) up cap False
           = (Inr (v, mid, fid), st3)"
    and "\<not> truthy_int mid"
  shows "\<exists>st'. process e st p = (None, st')
           \<and> worker_iteration e (st\<lparr>queue := p # queue st\<rparr>) = st'
           \<and> (\<exists>fm. files (meta st') (path_str r) = Some fm \<and> status fm = ''failed''
                  \<and> sig fm = Some (sig_of e f))
           \<and> map_option content (fs st' (METADATA_FILE e)) = Some (json_dumps e (meta st'))"
proof -
  from process_failure[OF assms] obtain st' where
    st': "process e st p = (None, st')"
      "\<exists>fm. files (meta st') (path_str r) = Some fm \<and> status fm = ''failed'' \<and> sig fm = Some (sig_of e f)"
      "map_option content (fs st' (METADATA_FILE e)) = Some (json_dumps e (meta st'))"
    by blast
  have "worker_iteration e (st\<lparr>queue := p # queue st\<rparr>) = snd (process e st p)"
    by (simp add: worker_iteration_def)
  with st' show ?thesis by simp
qed

text \<open>
  On the concrete installation, with a primary endpoint that answers \<open>ok\<close> false: one
  request is sent and the record of \<open>a.txt\<close> is failed.
\<close>

lemma process_records_failure_witness:
  "\<exists>st'. process demo_env_not_ok demo_state demo_path = (None, st')
      \<and> worker_iteration demo_env_not_ok (demo_state\<lparr>queue := demo_path # queue demo_state\<rparr>) = st'
      \<and> (\<exists>fm. files (meta st') ''a.txt'' = Some fm \<and> status fm = ''failed''
            \<and> sig fm = Some (sig_of demo_env_not_ok demo_file))
      \<and> map_option content (fs st' (METADATA_FILE demo_env_not_ok)) = Some ''{}''
      \<and> trace st' = [BotSend demo_path ''a.txt'' ''hello'']"
proof -
  let ?e = demo_env_not_ok
  let ?st1 = "sleep (3 / 2) demo_state"
  let ?st3 = "emit (BotSend demo_path ''a.txt'' ''hello'') (guard ?e ?st1)"
  have rel: "relative_to demo_path (CLOUD_DIR ?e) = Some [''a.txt'']"
    by (simp add: demo_defs demo_env_not_ok_def CLOUD_DIR_def)
  have f: "fs demo_state demo_path = Some demo_file" by (simp add: demo_defs)
  have ns: "\<not> already_synced (files (meta demo_state) (path_str [''a.txt''])) (sig_of ?e demo_file)"
    by (simp add: demo_defs already_synced_def new_MetadataDB_def)
  have enc: "encrypt_step ?e ?st1 demo_path (path_str [''a.txt'']) demo_file
      = ((demo_path, ''a.txt'', None, 5), ?st1)"
    by (simp add: demo_defs demo_env_not_ok_def encrypt_step_def st_size_def path_str_def)
  have send: "send_document ?e (gui_emit (GuiCurrentUpload (path_str [''a.txt'']) 5) ?st1) demo_path ''a.txt'' False
      = (Inr (''bot'', None, None), ?st3)"
    by (simp add: demo_defs demo_env_not_ok_def send_document_def bot_path_def st_size_def BOT_LIMIT_def
        bot_send_document.simps gui_emit_def sleep_def Let_def)
  have nomid: "\<not> truthy_int None" by (simp add: truthy_int_def)
  from process_records_failure[OF rel f ns enc send nomid] obtain st' where
    st': "process ?e demo_state demo_path = (None, st')"
      "worker_iteration ?e (demo_state\<lparr>queue := demo_path # queue demo_state\<rparr>) = st'"
      "\<exists>fm. files (meta st') (path_str [''a.txt'']) = Some fm \<and> status fm = ''failed''
            \<and> sig fm = Some (sig_of ?e demo_file)"
      "map_option content (fs st' (METADATA_FILE ?e)) = Some (json_dumps ?e (meta st'))"
    by blast
  from process_send_returned[OF rel f ns enc send]
  have "process ?e demo_state demo_path
      = record_failure ?e (clean_temp ?st3 None) (path_str [''a.txt'']) 5 (st_mtime demo_file) (sig_of ?e demo_file)"
    by (simp add: truthy_int_def)
  with st'(1)
  have "st' = snd (record_failure ?e (clean_temp ?st3 None) (path_str [''a.txt'']) 5 (st_mtime demo_file) (sig_of ?e demo_file))"
    by (metis snd_conv)
  then have "trace st' = [BotSend demo_path ''a.txt'' ''hello'']"
    by (simp add: record_failure_def save_METADATA_FILE put_record_def emit_def Let_def demo_state_def sleep_def)
  with st' show ?thesis
    by (auto simp: path_str_def demo_env_not_ok_def demo_env_def)
qed

text \<open>
  C4 fails when the transfer fails by raising. On the concrete installation, with the
  default configuration and a primary endpoint that answers the \<open>sendDocument\<close>
  request with an error status, \<open>raise_for_status\<close> raises in \<open>bot_send_document\<close>;
  nothing between there and the worker loop catches the exception, so \<open>_process\<close> ends
  before its failure branch. One request was sent, the worker's turn ends normally,
  and the store has no record of \<open>a.txt\<close>, failed or otherwise, and was not saved.
  (\<open>user_send_document\<close> catches every exception and returns without a message
  reference, which the failure branch then records.)
\<close>

theorem process_error_status_no_failed_record:
  "\<exists>st'. process demo_env_error demo_state demo_path = (Some HTTPError, st')
     \<and> worker_iteration demo_env_error (demo_state\<lparr>queue := demo_path # queue demo_state\<rparr>) = st'
     \<and> trace st' = [BotSend demo_path ''a.txt'' ''hello'']
     \<and> files (meta st') ''a.txt'' = None
     \<and> fs st' (METADATA_FILE demo_env_error) = None"
proof -
  let ?e = demo_env_error
  let ?st1 = "sleep (3 / 2) demo_state"
  let ?st3 = "emit (BotSend demo_path ''a.txt'' ''hello'') (guard ?e ?st1)"
  have rel: "relative_to demo_path (CLOUD_DIR ?e) = Some [''a.txt'']"
    by (simp add: demo_defs demo_env_error_def CLOUD_DIR_def)
  have f: "fs demo_state demo_path = Some demo_file" by (simp add: demo_defs)
  have ns: "\<not> already_synced (files (meta demo_state) (path_str [''a.txt''])) (sig_of ?e demo_file)"
    by (simp add: demo_defs already_synced_def new_MetadataDB_def)
  have enc: "encrypt_step ?e ?st1 demo_path (path_str [''a.txt'']) demo_file
      = ((demo_path, ''a.txt'', None, 5), ?st1)"
    by (simp add: demo_defs demo_env_error_def encrypt_step_def st_size_def path_str_def)
  have send: "send_document ?e (gui_emit (GuiCurrentUpload (path_str [''a.txt'']) 5) ?st1) demo_path ''a.txt'' False
      = (Inl HTTPError, ?st3)"
    by (simp add: demo_defs demo_env_error_def send_document_def bot_path_def st_size_def BOT_LIMIT_def
        bot_send_document.simps gui_emit_def sleep_def Let_def)
  from process_send_raises(1)[OF rel f ns enc send]
  have p: "process ?e demo_state demo_path = (Some HTTPError, ?st3)" .
  have w: "worker_iteration ?e (demo_state\<lparr>queue := demo_path # queue demo_state\<rparr>)
      = snd (process ?e demo_state demo_path)"
    by (simp add: worker_iteration_def)
  have "trace ?st3 = [BotSend demo_path ''a.txt'' ''hello'']"
    and "files (meta ?st3) ''a.txt'' = None"
    and "fs ?st3 (METADATA_FILE ?e) = None"
    by (simp_all add: emit_def sleep_def demo_state_def new_MetadataDB_def demo_path_def
        METADATA_FILE_def demo_env_error_def demo_env_def)
  with p w show ?thesis by simp
qed

lemma put_record_keeps [simp]:
  "fs (put_record st rel fm) = fs st" "queue (put_record st rel fm) = queue st"
  "last_event (put_record st rel fm) = last_event st" "clock (put_record st rel fm) = clock st"
  "files (meta (put_record st rel fm)) = (files (meta st))(rel \<mapsto> fm)"
  by (simp_all add: put_record_def)


lemma encrypt_step_keeps_file:
  assumes "encrypt_step e st p rel f = ((up, cap, tmp, sz), st1)" and "fs st p = Some f"
  shows "fs st1 p = Some f"
  using assms enc_path_neq[of p]
  by (auto simp: encrypt_step_def Let_def split: if_splits)

lemma clean_temp_keeps_file:
  "tmp = None \<or> tmp = Some (enc_path p) \<Longrightarrow> fs (clean_temp st tmp) p = fs st p"
  using enc_path_neq[of p] by (auto simp: clean_temp_def)

lemma process_success:
  assumes rel: "relative_to p (CLOUD_DIR e) = Some r" and f: "fs st p = Some f"
    and ns: "\<not> already_synced (files (meta st) (path_str r)) (sig_of e f)"
    and enc: "encrypt_step e (sleep (3 / 2) st) p (path_str r) f = ((up, cap, tmp, sz), st1)"
    and send: "send_document e (gui_emit (GuiCurrentUpload (path_str r) sz) st1) up cap False
                 = (Inr (v, mid, fid), st3)"
    and mid: "truthy_int mid"
  shows "\<exists>st'. process e st p = (None, st')
     \<and> files (meta st') (path_str r) =
         Some (let fm1 = (case files (meta st) (path_str r) of Some m \<Rightarrow> m | None \<Rightarrow> new_FileMeta 0 0)
                  \<lparr>size_fm := int (st_size f), mtime := st_mtime f, sha256 := sha_of e f,
                   status := ''uploaded'',
                   uploaded_at := Some (isoformat e (clock (clean_temp st3 tmp))),
                   sig := Some (make_sig (int (st_size f)) (st_mtime f) (sha_of e f)), via := Some v\<rparr>
               in if v = ''bot'' then fm1\<lparr>message_id := mid, file_id := fid\<rparr>
                  else fm1\<lparr>user_message_id := mid\<rparr>)
     \<and> map_option content (fs st' (METADATA_FILE e)) = Some (json_dumps e (meta st'))
     \<and> fs st' = ((fs (clean_temp st3 tmp))(work_dir e @ [''metadata.tmp''] := None))
              (METADATA_FILE e \<mapsto> \<lparr>content = json_dumps e (meta st'), st_mtime = clock (clean_temp st3 tmp)\<rparr>)"
proof -
  let ?st4 = "clean_temp st3 tmp"
  have f0: "fs (sleep (3 / 2) st) p = Some f" using f by simp
  from encrypt_step_keeps_file[OF enc f0] have f1: "fs st1 p = Some f" .
  from encrypt_step_effect[OF enc f0] have m1: "meta st1 = meta st"
    and t: "tmp = None \<or> tmp = Some (enc_path p)" by simp_all
  from send_document_keeps'[OF send] f1 m1 have "fs st3 p = Some f" "meta st3 = meta st" by simp_all
  with t have f4: "fs ?st4 p = Some f" and m4: "meta ?st4 = meta st"
    by (simp_all add: clean_temp_keeps_file)
  from process_send_returned[OF rel f ns enc send] mid
  have "process e st p = record_success e ?st4 p (path_str r) (sha_of e f) v mid fid" by simp
  with record_success_effect[OF f4, of e "path_str r" "sha_of e f" v mid fid] m4
  show ?thesis by simp
qed



text \<open>
  C6, as the code has it. Take a path under the watched folder whose file is on disk
  and not already synced, and suppose the transfer returns a message reference. Then
  the record has status \<open>uploaded\<close> and \<open>via\<close> names the transport that carried the
  file. After a primary transfer \<open>message_id\<close> and \<open>file_id\<close> are the ones returned
  and \<open>user_message_id\<close> is what the record held before; after a secondary transfer
  \<open>user_message_id\<close> is the one returned and \<open>message_id\<close> and \<open>file_id\<close> are what
  the record held before. The reference of the other endpoint is kept, not cleared.
\<close>

theorem process_success_references:
  assumes "relative_to p (CLOUD_DIR e) = Some r" and "fs st p = Some f"
    and "\<not> already_synced (files (meta st) (path_str r)) (sig_of e f)"
    and "encrypt_step e (sleep (3 / 2) st) p (path_str r) f = ((up, cap, tmp, sz), st1)"
    and "send_document e (gui_emit (GuiCurrentUpload (path_str r) sz) st1) up cap False
           = (Inr (v, mid, fid), st3)"
    and "truthy_int mid"
    and "prev = (case files (meta st) (path_str r) of Some m \<Rightarrow> m | None \<Rightarrow> new_FileMeta 0 0)"
  shows "\<exists>st' fm. process e st p = (None, st') \<and> files (meta st') (path_str r) = Some fm
     \<and> status fm = ''uploaded'' \<and> via fm = Some v
     \<and> (if v = ''bot''
         then message_id fm = mid \<and> file_id fm = fid \<and> user_message_id fm = user_message_id prev
         else user_message_id fm = mid \<and> message_id fm = message_id prev \<and> file_id fm = file_id prev)"
proof -
  from process_success[OF assms(1-6)] obtain st' where
    "process e st p = (None, st')"
    "files (meta st') (path_str r) =
         Some (let fm1 = (case files (meta st) (path_str r) of Some m \<Rightarrow> m | None \<Rightarrow> new_FileMeta 0 0)
                  \<lparr>size_fm := int (st_size f), mtime := st_mtime f, sha256 := sha_of e f,
                   status := ''uploaded'',
                   uploaded_at := Some (isoformat e (clock (clean_temp st3 tmp))),
                   sig := Some (make_sig (int (st_size f)) (st_mtime f) (sha_of e f)), via := Some v\<rparr>
               in if v = ''bot'' then fm1\<lparr>message_id := mid, file_id := fid\<rparr>
                  else fm1\<lparr>user_message_id := mid\<rparr>)"
    by blast
  then show ?thesis using assms(7) by (auto simp: Let_def)
qed

lemma demo_bot_record_process:
  "\<exists>st'. process demo_env_2gb demo_bot_record_state demo_path = (None, st')
     \<and> files (meta st') ''a.txt'' =
         Some (demo_bot_record
                  \<lparr>size_fm := 5, mtime := 1700000000, sha256 := None,
                   status := ''uploaded'',
                   uploaded_at := Some ''2024-01-01T00:00:00'',
                   sig := Some (make_sig 5 1700000000 None), via := Some ''user'',
                   user_message_id := Some 77\<rparr>)"
proof -
  let ?e = demo_env_2gb and ?st = demo_bot_record_state
  let ?st1 = "sleep (3 / 2) ?st"
  let ?st3 = "emit (UserSend demo_path ''a.txt'' ''hello'') ?st1"
  have rel: "relative_to demo_path (CLOUD_DIR ?e) = Some [''a.txt'']"
    by (simp add: demo_defs CLOUD_DIR_def)
  have f: "fs ?st demo_path = Some demo_file"
    by (simp add: demo_bot_record_state_def with_user_client_def demo_state_def)
  have ns: "\<not> already_synced (files (meta ?st) (path_str [''a.txt''])) (sig_of ?e demo_file)"
    by (simp add: demo_bot_record_state_def with_user_client_def demo_bot_record_def
        already_synced_def path_str_def)
  have enc: "encrypt_step ?e ?st1 demo_path (path_str [''a.txt'']) demo_file
      = ((demo_path, ''a.txt'', None, 5), ?st1)"
    by (simp add: demo_defs encrypt_step_def st_size_def path_str_def)
  have send: "send_document ?e (gui_emit (GuiCurrentUpload (path_str [''a.txt'']) 5) ?st1) demo_path ''a.txt'' False
      = (Inr (''user'', Some 77, None), ?st3)"
    by (simp add: demo_defs demo_bot_record_state_def send_document_def user_path_def
        user_send_document_def gui_emit_def sleep_def put_record_def emit_def Let_def)
  have mid: "truthy_int (Some 77)" by (simp add: truthy_int_def)
  from process_success[OF rel f ns enc send mid] obtain st' where
    p: "process ?e ?st demo_path = (None, st')"
    and m: "files (meta st') (path_str [''a.txt'']) =
         Some (let fm1 = (case files (meta ?st) (path_str [''a.txt'']) of Some m \<Rightarrow> m | None \<Rightarrow> new_FileMeta 0 0)
                  \<lparr>size_fm := int (st_size demo_file), mtime := st_mtime demo_file, sha256 := sha_of ?e demo_file,
                   status := ''uploaded'',
                   uploaded_at := Some (isoformat ?e (clock (clean_temp ?st3 None))),
                   sig := Some (make_sig (int (st_size demo_file)) (st_mtime demo_file) (sha_of ?e demo_file)), via := Some ''user''\<rparr>
               in if ''user'' = ''bot'' then fm1\<lparr>message_id := Some 77, file_id := None\<rparr>
                  else fm1\<lparr>user_message_id := Some 77\<rparr>)"
    by blast
  have prev: "files (meta ?st) (path_str [''a.txt'']) = Some demo_bot_record"
    by (simp add: demo_bot_record_state_def with_user_client_def path_str_def)
  have sha: "sha_of ?e demo_file = None"
    by (simp add: sha_of_def demo_defs)
  have iso: "isoformat ?e t = ''2024-01-01T00:00:00''" for t
    by (simp add: demo_defs)
  have sz: "st_size demo_file = 5" "st_mtime demo_file = 1700000000"
    by (simp_all add: st_size_def demo_file_def)
  from m have "files (meta st') ''a.txt'' =
         Some (demo_bot_record
                  \<lparr>size_fm := 5, mtime := 1700000000, sha256 := None,
                   status := ''uploaded'',
                   uploaded_at := Some ''2024-01-01T00:00:00'',
                   sig := Some (make_sig 5 1700000000 None), via := Some ''user'',
                   user_message_id := Some 77\<rparr>)"
    unfolding prev sha iso sz by (simp add: path_str_def Let_def)
  with p show ?thesis by blast
qed

text \<open>
  C6 as stated fails: a record that holds the references of an earlier primary
  transfer still holds them after a successful secondary transfer.
\<close>

theorem stale_primary_reference_kept:
  "\<exists>st' fm. process demo_env_2gb demo_bot_record_state demo_path = (None, st')
     \<and> file_id (the (files (meta demo_bot_record_state) ''a.txt'')) = Some ''OLDFILE''
     \<and> files (meta st') ''a.txt'' = Some fm
     \<and> via fm = Some ''user'' \<and> user_message_id fm = Some 77
     \<and> file_id fm = Some ''OLDFILE'' \<and> message_id fm = Some 5"
  using demo_bot_record_process
  by (auto simp: demo_bot_record_def demo_bot_record_state_def with_user_client_def)

text \<open>
  C6 on the concrete installation: the file of a record with primary references is
  sent through the secondary endpoint.
\<close>

theorem process_success_references_witness:
  "\<exists>st' fm. process demo_env_2gb demo_bot_record_state demo_path = (None, st')
     \<and> files (meta st') ''a.txt'' = Some fm
     \<and> status fm = ''uploaded'' \<and> via fm = Some ''user'' \<and> user_message_id fm = Some 77
     \<and> message_id fm = message_id demo_bot_record \<and> file_id fm = file_id demo_bot_record"
proof -
  let ?e = demo_env_2gb and ?st = demo_bot_record_state
  let ?st1 = "sleep (3 / 2) ?st"
  let ?st3 = "emit (UserSend demo_path ''a.txt'' ''hello'') ?st1"
  have rel: "relative_to demo_path (CLOUD_DIR ?e) = Some [''a.txt'']"
    by (simp add: demo_defs CLOUD_DIR_def)
  have f: "fs ?st demo_path = Some demo_file"
    by (simp add: demo_bot_record_state_def with_user_client_def demo_state_def)
  have ns: "\<not> already_synced (files (meta ?st) (path_str [''a.txt''])) (sig_of ?e demo_file)"
    by (simp add: demo_bot_record_state_def with_user_client_def demo_bot_record_def
        already_synced_def path_str_def)
  have enc: "encrypt_step ?e ?st1 demo_path (path_str [''a.txt'']) demo_file
      = ((demo_path, ''a.txt'', None, 5), ?st1)"
    by (simp add: demo_defs encrypt_step_def st_size_def path_str_def)
  have send: "send_document ?e (gui_emit (GuiCurrentUpload (path_str [''a.txt'']) 5) ?st1) demo_path ''a.txt'' False
      = (Inr (''user'', Some 77, None), ?st3)"
    by (simp add: demo_defs demo_bot_record_state_def send_document_def user_path_def
        user_send_document_def gui_emit_def sleep_def put_record_def emit_def Let_def)
  have mid: "truthy_int (Some 77)" by (simp add: truthy_int_def)
  have prev: "demo_bot_record
      = (case files (meta ?st) (path_str [''a.txt'']) of Some m \<Rightarrow> m | None \<Rightarrow> new_FileMeta 0 0)"
    by (simp add: demo_bot_record_state_def with_user_client_def path_str_def)
  from process_success_references[OF rel f ns enc send mid prev] show ?thesis
    by (simp add: path_str_def)
qed

section \<open>Routing of a download\<close>

lemma bot_download_file_trace:
  "\<exists>evs. trace (snd (bot_download_file e st fid dest)) = trace st @ BotGetFile fid # evs
      \<and> (\<forall>mid d. UserDownload mid d \<notin> set evs)"
  by (auto simp: bot_download_file_def emit_def Let_def split: getfile_reply.splits fetch_reply.splits)

lemma download_user_trace:
  "\<exists>evs. trace (snd (download_user e st fm dest)) = trace st @ evs"
  by (auto simp: download_user_def user_download_by_message_id_def emit_def Let_def
      split: option.splits prod.splits)

text \<open>
  C7, as the code has it. When the record was not sent through the secondary endpoint
  (\<open>via\<close> is not \<open>user\<close>) and has a non-empty \<open>file_id\<close>, the first request of
  \<open>download\<close> is \<open>getFile\<close> of the primary endpoint for that \<open>file_id\<close>; a primary
  download that succeeds is the result; one that returns failure is followed by the
  secondary route; and a request to the secondary endpoint is made only after the
  primary download has returned failure. In every other case no primary request is
  made: the secondary endpoint is asked by \<open>user_message_id\<close> when the record has
  one, otherwise by \<open>message_id\<close> when the record has one and a secondary client
  exists, and otherwise the result is failure with the state as it was.
\<close>

theorem download_routing:
  "(via fm \<noteq> Some ''user'' \<and> truthy_str (file_id fm) \<longrightarrow>
      (\<exists>evs. trace (snd (download e st fm dest)) = trace st @ BotGetFile (the (file_id fm)) # evs)
      \<and> (\<forall>st1. bot_download_file e st (the (file_id fm)) dest = (Inr True, st1)
            \<longrightarrow> download e st fm dest = (Inr True, st1))
      \<and> (\<forall>st1. bot_download_file e st (the (file_id fm)) dest = (Inr False, st1)
            \<longrightarrow> download e st fm dest = download_user e st1 fm dest)
      \<and> (\<forall>mid d. UserDownload mid d \<in> set (trace (snd (download e st fm dest)))
                 \<and> UserDownload mid d \<notin> set (trace st)
            \<longrightarrow> fst (bot_download_file e st (the (file_id fm)) dest) = Inr False))
   \<and> (\<not> (via fm \<noteq> Some ''user'' \<and> truthy_str (file_id fm)) \<longrightarrow>
      (truthy_int (user_message_id fm) \<longrightarrow>
         download e st fm dest
           = (Inr (fst (user_download_by_message_id e st (the (user_message_id fm)) dest)),
              snd (user_download_by_message_id e st (the (user_message_id fm)) dest)))
      \<and> (\<not> truthy_int (user_message_id fm) \<and> truthy_int (message_id fm) \<and> user_client st \<longrightarrow>
         download e st fm dest
           = (Inr (fst (user_download_by_message_id e st (the (message_id fm)) dest)),
              snd (user_download_by_message_id e st (the (message_id fm)) dest)))
      \<and> (\<not> truthy_int (user_message_id fm) \<and> \<not> (truthy_int (message_id fm) \<and> user_client st) \<longrightarrow>
         download e st fm dest = (Inr False, st)))"
proof (intro conjI impI allI)
  assume a: "via fm \<noteq> Some ''user'' \<and> truthy_str (file_id fm)"
  let ?b = "bot_download_file e st (the (file_id fm)) dest"
  obtain res st1 where b: "?b = (res, st1)" by (cases ?b)
  from bot_download_file_trace[of e st "the (file_id fm)" dest] b obtain evs where
    evs: "trace st1 = trace st @ BotGetFile (the (file_id fm)) # evs"
      "\<forall>mid d. UserDownload mid d \<notin> set evs"
    by auto
  show "\<exists>evs. trace (snd (download e st fm dest)) = trace st @ BotGetFile (the (file_id fm)) # evs"
  proof (cases res)
    case (Inl x)
    with a b evs show ?thesis by (simp add: download_def)
  next
    case (Inr ok)
    show ?thesis
    proof (cases ok)
      case True
      with a b evs Inr show ?thesis by (simp add: download_def)
    next
      case False
      from download_user_trace[of e st1 fm dest] obtain evs' where
        "trace (snd (download_user e st1 fm dest)) = trace st1 @ evs'" by blast
      with a b evs Inr False show ?thesis by (simp add: download_def)
    qed
  qed
  show "download e st fm dest = (Inr True, s)"
    if "bot_download_file e st (the (file_id fm)) dest = (Inr True, s)" for s
    using a that by (simp add: download_def)
  show "download e st fm dest = download_user e s fm dest"
    if "bot_download_file e st (the (file_id fm)) dest = (Inr False, s)" for s
    using a that by (simp add: download_def)
  show "fst ?b = Inr False"
    if u: "UserDownload mid d \<in> set (trace (snd (download e st fm dest)))
                 \<and> UserDownload mid d \<notin> set (trace st)" for mid d
  proof (cases res)
    case (Inl x)
    with a b have "download e st fm dest = (Inl x, st1)" by (simp add: download_def)
    with u evs show ?thesis by auto
  next
    case (Inr ok)
    show ?thesis
    proof (cases ok)
      case True
      with a b Inr have "download e st fm dest = (Inr True, st1)" by (simp add: download_def)
      with u evs show ?thesis by auto
    next
      case False
      with b Inr show ?thesis by simp
    qed
  qed
next
  assume "\<not> (via fm \<noteq> Some ''user'' \<and> truthy_str (file_id fm))" and "truthy_int (user_message_id fm)"
  then show "download e st fm dest
           = (Inr (fst (user_download_by_message_id e st (the (user_message_id fm)) dest)),
              snd (user_download_by_message_id e st (the (user_message_id fm)) dest))"
    by (auto simp: download_def download_user_def case_prod_beta)
next
  assume "\<not> (via fm \<noteq> Some ''user'' \<and> truthy_str (file_id fm))"
    and "\<not> truthy_int (user_message_id fm) \<and> truthy_int (message_id fm) \<and> user_client st"
  then show "download e st fm dest
           = (Inr (fst (user_download_by_message_id e st (the (message_id fm)) dest)),
              snd (user_download_by_message_id e st (the (message_id fm)) dest))"
    by (auto simp: download_def download_user_def case_prod_beta)
next
  assume "\<not> (via fm \<noteq> Some ''user'' \<and> truthy_str (file_id fm))"
    and "\<not> truthy_int (user_message_id fm) \<and> \<not> (truthy_int (message_id fm) \<and> user_client st)"
  then show "download e st fm dest = (Inr False, st)"
    by (auto simp: download_def download_user_def)
qed

text \<open>
  C7 as stated fails: a record with a primary reference whose \<open>via\<close> is \<open>user\<close> is
  downloaded through the secondary endpoint, and the primary endpoint is not tried.
\<close>

theorem download_skips_primary_reference:
  "file_id demo_user_record = Some ''OLDFILE''
   \<and> fst (download demo_env (with_user_client demo_state) demo_user_record demo_dest) = Inr True
   \<and> trace (snd (download demo_env (with_user_client demo_state) demo_user_record demo_dest))
       = [UserDownload 77 demo_dest]"
  by (simp add: demo_user_record_def download_def download_user_def truthy_int_def
      user_download_by_message_id_def emit_def with_user_client_def demo_state_def demo_env_def)

text \<open>
  C7 on the concrete installation: a record with primary references, a record with a
  secondary reference only, and a record with no reference.
\<close>

theorem download_routing_witness:
  "download demo_env (with_user_client demo_state) demo_bot_record demo_dest
     = (Inr True, snd (bot_download_file demo_env (with_user_client demo_state) ''OLDFILE'' demo_dest))
   \<and> (\<exists>evs. trace (snd (download demo_env (with_user_client demo_state) demo_bot_record demo_dest))
         = BotGetFile ''OLDFILE'' # evs)
   \<and> download demo_env (with_user_client demo_state) (demo_user_record\<lparr>file_id := None\<rparr>) demo_dest
     = (Inr True, snd (user_download_by_message_id demo_env (with_user_client demo_state) 77 demo_dest))
   \<and> download demo_env demo_state (new_FileMeta 5 1700000000) demo_dest = (Inr False, demo_state)"
proof -
  let ?st = "with_user_client demo_state"
  have a: "via demo_bot_record \<noteq> Some ''user'' \<and> truthy_str (file_id demo_bot_record)"
    and fid: "the (file_id demo_bot_record) = ''OLDFILE''"
    by (simp_all add: demo_bot_record_def truthy_str_def)
  have b: "bot_download_file demo_env ?st ''OLDFILE'' demo_dest
      = (Inr True, snd (bot_download_file demo_env ?st ''OLDFILE'' demo_dest))"
    by (simp add: bot_download_file_def demo_env_def Let_def)
  have tr: "trace ?st = []" by (simp add: with_user_client_def demo_state_def)
  from download_routing[where fm = demo_bot_record and e = demo_env and st = ?st and dest = demo_dest] a
  have r1: "\<exists>evs. trace (snd (download demo_env ?st demo_bot_record demo_dest))
         = trace ?st @ BotGetFile (the (file_id demo_bot_record)) # evs"
    and r2: "\<forall>st1. bot_download_file demo_env ?st (the (file_id demo_bot_record)) demo_dest = (Inr True, st1)
            \<longrightarrow> download demo_env ?st demo_bot_record demo_dest = (Inr True, st1)"
    by blast+
  from r2 b fid have c1: "download demo_env ?st demo_bot_record demo_dest
     = (Inr True, snd (bot_download_file demo_env ?st ''OLDFILE'' demo_dest))" by simp
  from r1 fid tr have c2: "\<exists>evs. trace (snd (download demo_env ?st demo_bot_record demo_dest))
         = BotGetFile ''OLDFILE'' # evs" by simp
  let ?u = "demo_user_record\<lparr>file_id := None\<rparr>"
  have u: "\<not> (via ?u \<noteq> Some ''user'' \<and> truthy_str (file_id ?u))" "truthy_int (user_message_id ?u)"
    "the (user_message_id ?u) = 77"
    by (simp_all add: demo_user_record_def truthy_int_def)
  have ok: "fst (user_download_by_message_id demo_env ?st 77 demo_dest) = True"
    by (simp add: user_download_by_message_id_def with_user_client_def demo_env_def Let_def)
  from download_routing[where fm = ?u and e = demo_env and st = ?st and dest = demo_dest] u(1,2)
  have "download demo_env ?st ?u demo_dest
     = (Inr (fst (user_download_by_message_id demo_env ?st (the (user_message_id ?u)) demo_dest)),
        snd (user_download_by_message_id demo_env ?st (the (user_message_id ?u)) demo_dest))"
    by blast
  with u(3) ok have c3: "download demo_env ?st ?u demo_dest
     = (Inr True, snd (user_download_by_message_id demo_env ?st 77 demo_dest))"
    by simp
  let ?n = "new_FileMeta 5 1700000000"
  have n: "\<not> (via ?n \<noteq> Some ''user'' \<and> truthy_str (file_id ?n))"
    "\<not> truthy_int (user_message_id ?n) \<and> \<not> (truthy_int (message_id ?n) \<and> user_client demo_state)"
    by (simp_all add: new_FileMeta_def truthy_int_def truthy_str_def)
  from download_routing[where fm = ?n and e = demo_env and st = demo_state and dest = demo_dest] n
  have c4: "download demo_env demo_state ?n demo_dest = (Inr False, demo_state)"
    by blast
  from c1 c2 c3 c4 show ?thesis by blast
qed

section \<open>Debounced enqueue\<close>

lemma enqueue_queue_cases:
  "queue (enqueue e st p) = queue st \<or> queue (enqueue e st p) = queue st @ [p]"
  by (simp add: enqueue_def Let_def split: option.splits)

lemma enqueue_gate:
  assumes "relative_to p (CLOUD_DIR e) = Some r"
  shows "enqueue e st p = st
     \<or> (last_event (enqueue e st p) (path_str r) = Some (clock st)
        \<and> (queue (enqueue e st p) = queue st \<or> queue (enqueue e st p) = queue st @ [p]))"
  using assms by (simp add: enqueue_def Let_def)

lemma enqueue_outside: "relative_to p (CLOUD_DIR e) = None \<Longrightarrow> enqueue e st p = st"
  by (simp add: enqueue_def)

lemma enqueue_debounced:
  assumes "relative_to p (CLOUD_DIR e) = Some r" and "last_event st (path_str r) = Some t"
    and "clock st - t < 1"
  shows "enqueue e st p = st"
  using assms by (simp add: enqueue_def Let_def)

text \<open>
  C9, as the code has it. Take two calls of \<open>enqueue\<close> for the same path, the second
  less than one second after the first on the clock, with the entry of that path in
  the debounce table between them as the first call left it (everything else may have
  changed: the queue, the files, the store, and the entries of other paths, which are
  written when other paths are enqueued in between). Then at most one of the two calls
  appends the path to the queue. And when the first call got as far as the debounce
  table, so that the table holds the time of the first call, the second call returns
  with the state as it was.
\<close>

theorem enqueue_debounce:
  assumes "\<forall>r. relative_to p (CLOUD_DIR e) = Some r
             \<longrightarrow> last_event s1' (path_str r) = last_event (enqueue e s0 p) (path_str r)"
    and "clock s1' - clock s0 < 1"
  shows "((queue (enqueue e s0 p) = queue s0
            \<and> (queue (enqueue e s1' p) = queue s1' \<or> queue (enqueue e s1' p) = queue s1' @ [p]))
          \<or> (queue (enqueue e s0 p) = queue s0 @ [p] \<and> enqueue e s1' p = s1'))
     \<and> (relative_to p (CLOUD_DIR e) = Some r
          \<and> last_event (enqueue e s0 p) (path_str r) = Some (clock s0)
        \<longrightarrow> enqueue e s1' p = s1')"
proof
  show "relative_to p (CLOUD_DIR e) = Some r
          \<and> last_event (enqueue e s0 p) (path_str r) = Some (clock s0)
        \<longrightarrow> enqueue e s1' p = s1'"
    using assms by (auto intro: enqueue_debounced)
  show "(queue (enqueue e s0 p) = queue s0
            \<and> (queue (enqueue e s1' p) = queue s1' \<or> queue (enqueue e s1' p) = queue s1' @ [p]))
          \<or> (queue (enqueue e s0 p) = queue s0 @ [p] \<and> enqueue e s1' p = s1')"
  proof (cases "relative_to p (CLOUD_DIR e)")
    case None
    then show ?thesis using enqueue_queue_cases[of e s1' p] by (simp add: enqueue_outside)
  next
    case (Some r')
    from enqueue_gate[OF Some, of s0] show ?thesis
    proof
      assume "enqueue e s0 p = s0"
      then show ?thesis using enqueue_queue_cases[of e s1' p] by simp
    next
      assume g: "last_event (enqueue e s0 p) (path_str r') = Some (clock s0)
        \<and> (queue (enqueue e s0 p) = queue s0 \<or> queue (enqueue e s0 p) = queue s0 @ [p])"
      with assms Some have "enqueue e s1' p = s1'"
        by (intro enqueue_debounced[OF Some, where t = "clock s0"]) simp_all
      with g show ?thesis by auto
    qed
  qed
qed

lemma not_ignored_demo_path: "\<not> ignored demo_path"
  by (simp add: demo_path_def ignored_def path_suffix_def path_name_def name_suffix_def lower_def
      lower_char_def IGNORED_SUFFIXES_def)

lemma relative_demo_path: "relative_to demo_path (CLOUD_DIR demo_env) = Some [''a.txt'']"
  by (simp add: demo_defs CLOUD_DIR_def)

text \<open>
  C9 as stated fails in its last part: when the first of the two calls is itself
  suppressed by an event half a second earlier, the table keeps the time of that
  event, and the second call, three quarters of a second after the first and more
  than a second after that event, puts the path on the queue.
\<close>

theorem second_call_enqueues:
  "clock (enqueue demo_env demo_recent_state demo_path\<lparr>clock := 1700000100 + 3 / 4\<rparr>)
       - clock demo_recent_state < 1
   \<and> queue (enqueue demo_env demo_recent_state demo_path) = []
   \<and> queue (enqueue demo_env (enqueue demo_env demo_recent_state demo_path\<lparr>clock := 1700000100 + 3 / 4\<rparr>)
        demo_path) = [demo_path]"
proof -
  have first: "enqueue demo_env demo_recent_state demo_path = demo_recent_state"
    by (rule enqueue_debounced[OF relative_demo_path, where t = "1700000100 - 1 / 2"])
      (simp_all add: demo_recent_state_def demo_state_def path_str_def)
  have "queue (enqueue demo_env (demo_recent_state\<lparr>clock := 1700000100 + 3 / 4\<rparr>) demo_path) = [demo_path]"
    using not_ignored_demo_path relative_demo_path
    by (simp add: enqueue_def unchanged_def already_synced_def Let_def path_str_def
        demo_recent_state_def demo_state_def new_MetadataDB_def)
  with first show ?thesis by (simp add: demo_recent_state_def demo_state_def)
qed

text \<open>
  C9 on the concrete installation: the first call puts \<open>a.txt\<close> on the queue; a
  quarter of a second later \<open>b.txt\<close> is enqueued; the second call for \<open>a.txt\<close>, half a
  second after the first, changes nothing.
\<close>

theorem enqueue_debounce_witness:
  "queue (enqueue demo_env demo_state demo_path) = [demo_path]
   \<and> enqueue demo_env
       (enqueue demo_env demo_state demo_path
          \<lparr>queue := [demo_path, [''home'', ''tg'', ''MyCloudData'', ''b.txt'']],
           last_event := (last_event (enqueue demo_env demo_state demo_path))
                           (''b.txt'' \<mapsto> 1700000100 + 1 / 4),
           clock := 1700000100 + 1 / 2\<rparr>) demo_path
       = enqueue demo_env demo_state demo_path
          \<lparr>queue := [demo_path, [''home'', ''tg'', ''MyCloudData'', ''b.txt'']],
           last_event := (last_event (enqueue demo_env demo_state demo_path))
                           (''b.txt'' \<mapsto> 1700000100 + 1 / 4),
           clock := 1700000100 + 1 / 2\<rparr>"
proof -
  let ?s1 = "enqueue demo_env demo_state demo_path"
  let ?s1' = "?s1\<lparr>queue := [demo_path, [''home'', ''tg'', ''MyCloudData'', ''b.txt'']],
           last_event := (last_event ?s1)(''b.txt'' \<mapsto> 1700000100 + 1 / 4),
           clock := 1700000100 + 1 / 2\<rparr>"
  have q: "queue ?s1 = [demo_path]" and l: "last_event ?s1 ''a.txt'' = Some (clock demo_state)"
    using not_ignored_demo_path relative_demo_path
    by (simp_all add: enqueue_def unchanged_def already_synced_def Let_def path_str_def
        demo_state_def new_MetadataDB_def)
  have h1: "\<forall>r. relative_to demo_path (CLOUD_DIR demo_env) = Some r
      \<longrightarrow> last_event ?s1' (path_str r) = last_event ?s1 (path_str r)"
    by (simp add: relative_demo_path path_str_def)
  have h2: "clock ?s1' - clock demo_state < 1"
    by (simp add: demo_state_def)
  from enqueue_debounce[OF h1 h2, where r = "[''a.txt'']"] relative_demo_path l
  have "enqueue demo_env ?s1' demo_path = ?s1'" by (simp add: path_str_def)
  with q show ?thesis by simp
qed

section \<open>Loading the store\<close>

lemma name_suffix_corrupt_json: "name_suffix (pre @ ''.corrupt.json'') = ''.json''"
  by (simp add: name_suffix_def)

lemma with_suffix_corrupt_neq:
  assumes "with_suffix p ''.corrupt.json'' = Some backup"
  shows "backup \<noteq> p"
proof
  assume eq: "backup = p"
  let ?nm = "path_name p"
  let ?k = "length ?nm - length (name_suffix ?nm)"
  from assms have nm: "?nm \<noteq> []" and b: "backup = butlast p @ [take ?k ?nm @ ''.corrupt.json'']"
    by (auto simp: with_suffix_def Let_def split: if_splits)
  from nm have p: "p \<noteq> []" "?nm = last p" by (auto simp: path_name_def split: if_splits)
  then have "p = butlast p @ [?nm]" by simp
  with b eq have "butlast p @ [take ?k ?nm @ ''.corrupt.json''] = butlast p @ [?nm]" by simp
  then have t: "take ?k ?nm @ ''.corrupt.json'' = ?nm" by simp
  then have "name_suffix ?nm = ''.json''" by (metis name_suffix_corrupt_json)
  then have k: "?k = length ?nm - 5" by simp
  from t have "length (take ?k ?nm @ ''.corrupt.json'') = length ?nm" by simp
  then have "length (take ?k ?nm) + 13 = length ?nm" by simp
  with k show False by simp
qed

lemma load_read:
  assumes "fsys p = Some f" and "read_text fsys p = Inr raw"
  shows "load e fsys p =
     (if strip raw = [] then Inr (new_MetadataDB, fsys)
      else case json_decode e (strip raw) of
             Decoded db \<Rightarrow> Inr (db, fsys)
           | Malformed \<Rightarrow>
               (case with_suffix p ''.corrupt.json'' of
                  None \<Rightarrow> Inl ValueError
                | Some backup \<Rightarrow> Inr (new_MetadataDB, (fsys(p := None))(backup \<mapsto> f)))
           | WrongShape \<Rightarrow> Inr (new_MetadataDB, fsys))"
  using assms
  by (simp add: load_def Let_def replace_file_def split: decode_result.splits option.splits)

lemma load_unreadable:
  "read_text fsys p = Inl x \<Longrightarrow> load e fsys p = Inr (new_MetadataDB, fsys)"
  by (simp add: load_def)

lemma read_text_name: "read_text fsys p = Inr raw \<Longrightarrow> path_name p \<noteq> []"
  by (auto simp: read_text_def split: if_splits)

text \<open>
  C3, as the code has it. \<open>load\<close> never raises. A missing file gives an empty store
  and no file is touched. A file whose text is empty once the white space at both
  ends is removed gives an empty store and stays where it is. A file whose text the
  JSON parser rejects gives an empty store and is moved to the sibling whose suffix is
  \<open>.corrupt.json\<close>, a path other than its own, with its content kept. Only a text that
  decodes to a store gives a store that is not empty, and then no file is touched.
\<close>

theorem load_outcomes:
  "(\<exists>db fs'. load e fsys p = Inr (db, fs'))
   \<and> (fsys p = None \<longrightarrow> load e fsys p = Inr (new_MetadataDB, fsys))
   \<and> (\<forall>raw. fsys p \<noteq> None \<and> read_text fsys p = Inr raw \<and> strip raw = []
         \<longrightarrow> load e fsys p = Inr (new_MetadataDB, fsys))
   \<and> (\<forall>f raw. fsys p = Some f \<and> read_text fsys p = Inr raw \<and> strip raw \<noteq> []
            \<and> json_decode e (strip raw) = Malformed
         \<longrightarrow> (\<exists>backup. with_suffix p ''.corrupt.json'' = Some backup \<and> backup \<noteq> p
               \<and> load e fsys p = Inr (new_MetadataDB, (fsys(p := None))(backup \<mapsto> f))))
   \<and> (\<forall>db fs'. load e fsys p = Inr (db, fs') \<and> db \<noteq> new_MetadataDB
         \<longrightarrow> fs' = fsys
           \<and> (\<exists>raw. read_text fsys p = Inr raw \<and> strip raw \<noteq> []
                  \<and> json_decode e (strip raw) = Decoded db))"
proof (intro conjI allI impI)
  have malformed: "\<exists>backup. with_suffix p ''.corrupt.json'' = Some backup \<and> backup \<noteq> p
               \<and> load e fsys p = Inr (new_MetadataDB, (fsys(p := None))(backup \<mapsto> f))"
    if h: "fsys p = Some f" "read_text fsys p = Inr raw" "strip raw \<noteq> []"
      "json_decode e (strip raw) = Malformed" for f raw
  proof -
    from read_text_name[OF h(2)] obtain backup where b: "with_suffix p ''.corrupt.json'' = Some backup"
      by (auto simp: with_suffix_def Let_def)
    from with_suffix_corrupt_neq[OF b] have "backup \<noteq> p" .
    moreover from load_read[where fsys = fsys and p = p and f = f and raw = raw and e = e] h b
    have "load e fsys p = Inr (new_MetadataDB, (fsys(p := None))(backup \<mapsto> f))" by simp
    ultimately show ?thesis using b by blast
  qed
  have cases: "load e fsys p = Inr (new_MetadataDB, fsys)
      \<or> (\<exists>f raw backup. fsys p = Some f \<and> read_text fsys p = Inr raw \<and> strip raw \<noteq> []
            \<and> json_decode e (strip raw) = Malformed
            \<and> load e fsys p = Inr (new_MetadataDB, (fsys(p := None))(backup \<mapsto> f)))
      \<or> (\<exists>raw db. read_text fsys p = Inr raw \<and> strip raw \<noteq> []
            \<and> json_decode e (strip raw) = Decoded db \<and> load e fsys p = Inr (db, fsys))"
  proof (cases "fsys p")
    case None
    then show ?thesis by (simp add: load_def)
  next
    case (Some f)
    show ?thesis
    proof (cases "read_text fsys p")
      case (Inl x)
      then show ?thesis by (simp add: load_unreadable)
    next
      case (Inr raw)
      show ?thesis
      proof (cases "strip raw = []")
        case True
        with load_read[where fsys = fsys and p = p and f = f and raw = raw and e = e] Some Inr
        show ?thesis by simp
      next
        case False
        show ?thesis
        proof (cases "json_decode e (strip raw)")
          case Malformed
          from malformed[OF Some Inr False Malformed] Some Inr False Malformed
          show ?thesis by blast
        next
          case WrongShape
          with load_read[where fsys = fsys and p = p and f = f and raw = raw and e = e] Some Inr False
          show ?thesis by simp
        next
          case (Decoded db)
          with load_read[where fsys = fsys and p = p and f = f and raw = raw and e = e] Some Inr False
          show ?thesis by simp
        qed
      qed
    qed
  qed
  from cases show "\<exists>db fs'. load e fsys p = Inr (db, fs')" by blast
  show "load e fsys p = Inr (new_MetadataDB, fsys)" if "fsys p = None"
    using that by (simp add: load_def)
  show "load e fsys p = Inr (new_MetadataDB, fsys)"
    if h: "fsys p \<noteq> None \<and> read_text fsys p = Inr raw \<and> strip raw = []" for raw
  proof -
    from h obtain f where "fsys p = Some f" by auto
    with load_read[where fsys = fsys and p = p and f = f and raw = raw and e = e] h
    show ?thesis by simp
  qed
  show "\<exists>backup. with_suffix p ''.corrupt.json'' = Some backup \<and> backup \<noteq> p
               \<and> load e fsys p = Inr (new_MetadataDB, (fsys(p := None))(backup \<mapsto> f))"
    if "fsys p = Some f \<and> read_text fsys p = Inr raw \<and> strip raw \<noteq> []
            \<and> json_decode e (strip raw) = Malformed" for f raw
    using that malformed by blast
  show "fs' = fsys" if "load e fsys p = Inr (db, fs') \<and> db \<noteq> new_MetadataDB" for db fs'
    using that cases by auto
  show "\<exists>raw. read_text fsys p = Inr raw \<and> strip raw \<noteq> [] \<and> json_decode e (strip raw) = Decoded db"
    if "load e fsys p = Inr (db, fs') \<and> db \<noteq> new_MetadataDB" for db fs'
    using that cases by auto
qed

lemma demo_metadata_name: "path_name (METADATA_FILE demo_env) = ''metadata.json''"
  by (simp add: METADATA_FILE_def path_name_def)

lemma demo_metadata_backup:
  "with_suffix (METADATA_FILE demo_env) ''.corrupt.json'' = Some [''home'', ''tg'', ''metadata.corrupt.json'']"
  by (simp add: with_suffix_def path_name_def name_suffix_metadata METADATA_FILE_def demo_env_def Let_def)

lemma demo_read_not_json:
  "read_text (demo_metadata_fs ''{not json'') (METADATA_FILE demo_env)
     = Inr [123, 110, 111, 116, 32, 106, 115, 111, 110]"
  by (simp add: read_text_def demo_metadata_name demo_metadata_fs_def utf8_decode_def)

text \<open>
  C3 as stated fails for an empty file: the store is empty, and the file is neither
  renamed nor removed; no \<open>.corrupt\<close> file appears.
\<close>

theorem load_leaves_empty_file:
  "load demo_env (demo_metadata_fs []) (METADATA_FILE demo_env)
       = Inr (new_MetadataDB, demo_metadata_fs [])
   \<and> demo_metadata_fs [] (METADATA_FILE demo_env) = Some \<lparr>content = [], st_mtime = 1700000000\<rparr>
   \<and> with_suffix (METADATA_FILE demo_env) ''.corrupt.json''
       = Some [''home'', ''tg'', ''metadata.corrupt.json'']
   \<and> demo_metadata_fs [] [''home'', ''tg'', ''metadata.corrupt.json''] = None"
proof -
  have "load demo_env (demo_metadata_fs []) (METADATA_FILE demo_env)
       = Inr (new_MetadataDB, demo_metadata_fs [])"
    by (simp add: load_def read_text_def demo_metadata_name demo_metadata_fs_def strip_def
        utf8_decode_def)
  moreover have "demo_metadata_fs [] [''home'', ''tg'', ''metadata.corrupt.json''] = None"
    by (simp add: demo_metadata_fs_def METADATA_FILE_def demo_env_def)
  ultimately show ?thesis
    by (simp add: demo_metadata_backup) (simp add: demo_metadata_fs_def)
qed

text \<open>
  C3 on the concrete installation: a metadata file holding \<open>{not json\<close> is moved to
  \<open>metadata.corrupt.json\<close>; with no file, and with a file holding one blank, nothing is
  touched.
\<close>

theorem load_outcomes_witness:
  "(\<exists>fs'. load demo_env (demo_metadata_fs ''{not json'') (METADATA_FILE demo_env)
              = Inr (new_MetadataDB, fs')
         \<and> fs' (METADATA_FILE demo_env) = None
         \<and> fs' [''home'', ''tg'', ''metadata.corrupt.json'']
             = Some \<lparr>content = ''{not json'', st_mtime = 1700000000\<rparr>)
   \<and> load demo_env Map.empty (METADATA_FILE demo_env) = Inr (new_MetadataDB, Map.empty)
   \<and> load demo_env (demo_metadata_fs '' '') (METADATA_FILE demo_env)
       = Inr (new_MetadataDB, demo_metadata_fs '' '')"
proof -
  let ?f = "\<lparr>content = ''{not json'', st_mtime = 1700000000\<rparr>"
  let ?fs = "demo_metadata_fs ''{not json''"
  let ?raw = "[123, 110, 111, 116, 32, 106, 115, 111, 110] :: nat list"
  have st: "strip ?raw = ?raw" by (simp add: strip_def is_space_def)
  have h: "?fs (METADATA_FILE demo_env) = Some ?f \<and> read_text ?fs (METADATA_FILE demo_env) = Inr ?raw
      \<and> strip ?raw \<noteq> [] \<and> json_decode demo_env (strip ?raw) = Malformed"
    unfolding st by (simp add: demo_read_not_json) (simp add: demo_metadata_fs_def demo_env_def)
  from load_outcomes[of demo_env ?fs "METADATA_FILE demo_env"] h obtain backup where
    b: "with_suffix (METADATA_FILE demo_env) ''.corrupt.json'' = Some backup" "backup \<noteq> METADATA_FILE demo_env"
      "load demo_env ?fs (METADATA_FILE demo_env)
         = Inr (new_MetadataDB, (?fs(METADATA_FILE demo_env := None))(backup \<mapsto> ?f))"
    by blast
  from b(1) have bk: "backup = [''home'', ''tg'', ''metadata.corrupt.json'']"
    by (simp add: demo_metadata_backup)
  from load_outcomes[of demo_env Map.empty "METADATA_FILE demo_env"]
  have e: "load demo_env Map.empty (METADATA_FILE demo_env) = Inr (new_MetadataDB, Map.empty)"
    by simp
  let ?ws = "demo_metadata_fs '' ''"
  have w: "?ws (METADATA_FILE demo_env) \<noteq> None \<and> read_text ?ws (METADATA_FILE demo_env) = Inr [32]
      \<and> strip [32] = []"
    by (simp add: read_text_def demo_metadata_name demo_metadata_fs_def utf8_decode_def strip_def
        is_space_def)
  from load_outcomes[of demo_env ?ws "METADATA_FILE demo_env"] w
  have s: "load demo_env ?ws (METADATA_FILE demo_env) = Inr (new_MetadataDB, ?ws)"
    by blast
  from b(2,3) bk e s show ?thesis by auto
qed

text \<open>
  Bytes that are not UTF-8, and a text of Unicode white space only, are left in place:
  the first reaches the handler of \<open>Exception\<close>, the second is empty once stripped.
\<close>

lemma load_leaves_undecodable_file:
  "load demo_env (demo_metadata_fs [CHR 0xFF, CHR 0xFE]) (METADATA_FILE demo_env)
       = Inr (new_MetadataDB, demo_metadata_fs [CHR 0xFF, CHR 0xFE])
   \<and> load demo_env (demo_metadata_fs [CHR 0xC2, CHR 0xA0]) (METADATA_FILE demo_env)
       = Inr (new_MetadataDB, demo_metadata_fs [CHR 0xC2, CHR 0xA0])"
  by (simp add: load_def read_text_def demo_metadata_name demo_metadata_fs_def utf8_decode_def
      strip_def is_space_def is_cont_def)

section \<open>Encryption before the transfer\<close>





lemma encrypt_step_encrypts:
  assumes "cfg_get False (encryption_enabled (cfg e))" and "fernet_available e"
    and "or_empty (encryption_passphrase (cfg e)) \<noteq> []"
    and "enc = fernet_encrypt e
                 (derive_fernet_key e (or_empty (encryption_passphrase (cfg e)))
                    (take 16 (sha256_digest e rel)))
                 (content f)"
  shows "encrypt_step e st p rel f =
     ((enc_path p, rel @ '' (enc)'', Some (enc_path p), length enc),
      st\<lparr>fs := (fs st)(enc_path p \<mapsto> \<lparr>content = enc, st_mtime = clock st\<rparr>)\<rparr>)"
  using assms by (simp add: encrypt_step_def Let_def)

lemma guard_gui [simp]: "gui (guard e st) = gui st"
  by (simp add: guard_def sleep_def Let_def)



lemmas demo_enc_defs = demo_env_enc_def demo_env_enc_nolib_def demo_env_enc_error_def demo_defs


text \<open>
  When the primary endpoint answers with an error status, the exception leaves
  \<open>_process\<close> before the temporary file is removed and before the record is written:
  the encrypted copy stays on disk and the store has no record of the file.
\<close>

lemma process_error_status_leaves_temp_file:
  "\<exists>st'. process demo_env_enc_error demo_state demo_path = (Some HTTPError, st')
     \<and> map_option content (fs st' (enc_path demo_path)) = Some ''gAAAAAhello''
     \<and> files (meta st') ''a.txt'' = None"
proof -
  let ?e = demo_env_enc_error
  let ?st1 = "(sleep (3 / 2) demo_state)
      \<lparr>fs := (fs demo_state)(enc_path demo_path \<mapsto> \<lparr>content = ''gAAAAAhello'', st_mtime = clock demo_state + 3 / 2\<rparr>)\<rparr>"
  let ?st2 = "gui_emit (GuiCurrentUpload (path_str [''a.txt'']) (length ''gAAAAAhello'')) ?st1"
  let ?snd = "send_document ?e ?st2 (enc_path demo_path) (path_str [''a.txt''] @ '' (enc)'') False"
  have rel: "relative_to demo_path (CLOUD_DIR ?e) = Some [''a.txt'']"
    by (simp add: demo_enc_defs CLOUD_DIR_def)
  have f: "fs demo_state demo_path = Some demo_file" by (simp add: demo_defs)
  have ns: "\<not> already_synced (files (meta demo_state) (path_str [''a.txt''])) (sig_of ?e demo_file)"
    by (simp add: demo_defs already_synced_def new_MetadataDB_def)
  have on: "cfg_get False (encryption_enabled (cfg ?e))" and lib: "fernet_available ?e"
    and pp: "or_empty (encryption_passphrase (cfg ?e)) \<noteq> []"
    by (simp_all add: demo_enc_defs or_empty_def)
  have ct: "''gAAAAAhello'' = fernet_encrypt ?e
                 (derive_fernet_key ?e (or_empty (encryption_passphrase (cfg ?e)))
                    (take 16 (sha256_digest ?e (path_str [''a.txt'']))))
                 (content demo_file)"
    by (simp add: demo_enc_defs)
  have enc: "encrypt_step ?e (sleep (3 / 2) demo_state) demo_path (path_str [''a.txt'']) demo_file
      = ((enc_path demo_path, path_str [''a.txt''] @ '' (enc)'', Some (enc_path demo_path),
          length ''gAAAAAhello''), ?st1)"
    unfolding encrypt_step_encrypts[OF on lib pp ct] by (simp add: sleep_def)
  have "fst ?snd = Inl HTTPError"
    by (simp add: demo_enc_defs send_document_def bot_path_def st_size_def BOT_LIMIT_def
        bot_send_document.simps gui_emit_def sleep_def path_str_def Let_def)
  then have send: "?snd = (Inl HTTPError, snd ?snd)" by (metis prod.collapse)
  from process_send_raises[OF rel f ns enc send]
  have "process ?e demo_state demo_path = (Some HTTPError, snd ?snd)"
    and "fs (snd ?snd) = fs ?st1" and "meta (snd ?snd) = meta demo_state" by simp_all
  then show ?thesis
    by (simp add: demo_state_def new_MetadataDB_def)
qed


end
